theory Spec2Isabelle
  imports Main
begin

section \<open>Strings and the schema's patterns\<close>

text \<open>
  JavaScript strings are modelled as \<^typ>\<open>string\<close>; a character outside ASCII is the
  sequence of its UTF-8 bytes. Every string that reaches \<open>toLowerCase\<close> in the handlers
  below is ASCII (an address that passed the format check, the address returned by the
  signature library, the synthesized e-mail), so lower-casing the letters A to Z is all
  that \<open>String.prototype.toLowerCase\<close> does there.
\<close>

definition toLowerChar :: "char \<Rightarrow> char" where
  "toLowerChar c =
     (case map_of (zip ''ABCDEFGHIJKLMNOPQRSTUVWXYZ'' ''abcdefghijklmnopqrstuvwxyz'') c of
        None \<Rightarrow> c
      | Some d \<Rightarrow> d)"

definition toLowerCase :: "string \<Rightarrow> string" where
  "toLowerCase s = map toLowerChar s"

text \<open>\<open>s.slice(-8)\<close>: the last eight characters, the whole string when it is shorter.\<close>

definition slice_last8 :: "string \<Rightarrow> string" where
  "slice_last8 s = drop (length s - 8) s"

text \<open>\<open>s.substring(7)\<close>: the string without its first seven characters.\<close>

definition substring7 :: "string \<Rightarrow> string" where
  "substring7 s = drop 7 s"

text \<open>
  The line terminators of ECMAScript (line feed, carriage return, U+2028, U+2029) and its
  white space (tab, vertical tab, form feed, space, U+00A0, U+1680, U+2000 to U+200A,
  U+202F, U+205F, U+3000, U+FEFF and the line terminators), each as its UTF-8 bytes.
\<close>

definition line_terminators :: "string list" where
  "line_terminators =
     [[CHR 0x0A], [CHR 0x0D], [CHR 0xE2, CHR 0x80, CHR 0xA8], [CHR 0xE2, CHR 0x80, CHR 0xA9]]"

definition white_space :: "string list" where
  "white_space =
     [[CHR 0x09], [CHR 0x0B], [CHR 0x0C], [CHR 0x20], [CHR 0xC2, CHR 0xA0],
      [CHR 0xE1, CHR 0x9A, CHR 0x80],
      [CHR 0xE2, CHR 0x80, CHR 0x80], [CHR 0xE2, CHR 0x80, CHR 0x81],
      [CHR 0xE2, CHR 0x80, CHR 0x82], [CHR 0xE2, CHR 0x80, CHR 0x83],
      [CHR 0xE2, CHR 0x80, CHR 0x84], [CHR 0xE2, CHR 0x80, CHR 0x85],
      [CHR 0xE2, CHR 0x80, CHR 0x86], [CHR 0xE2, CHR 0x80, CHR 0x87],
      [CHR 0xE2, CHR 0x80, CHR 0x88], [CHR 0xE2, CHR 0x80, CHR 0x89],
      [CHR 0xE2, CHR 0x80, CHR 0x8A], [CHR 0xE2, CHR 0x80, CHR 0xAF],
      [CHR 0xE2, CHR 0x81, CHR 0x9F], [CHR 0xE3, CHR 0x80, CHR 0x80],
      [CHR 0xEF, CHR 0xBB, CHR 0xBF]] @ line_terminators"

text \<open>The first of the sequences \<open>ws\<close> that the string begins with.\<close>

definition starts_with_any :: "string list \<Rightarrow> string \<Rightarrow> string option" where
  "starts_with_any ws s = find (\<lambda>w. take (length w) s = w) ws"

text \<open>Dropping from the front of a string every leading one of the sequences \<open>ws\<close>.\<close>

fun strip_leading :: "string list \<Rightarrow> string \<Rightarrow> string" where
  "strip_leading ws [] = []"
| "strip_leading ws (c # cs) =
     (case starts_with_any ws (c # cs) of
        None \<Rightarrow> c # cs
      | Some w \<Rightarrow> strip_leading ws (drop (length w - 1) cs))"

text \<open>\<open>s.trim()\<close> strips white space from both ends.\<close>

definition trim :: "string \<Rightarrow> string" where
  "trim s = rev (strip_leading (map rev white_space) (rev (strip_leading white_space s)))"

definition isDigit :: "char \<Rightarrow> bool" where
  "isDigit c = (c \<in> set ''0123456789'')"

definition isUpper :: "char \<Rightarrow> bool" where
  "isUpper c = (c \<in> set ''ABCDEFGHIJKLMNOPQRSTUVWXYZ'')"

definition isHexDigit :: "char \<Rightarrow> bool" where
  "isHexDigit c = (c \<in> set ''abcdefABCDEF0123456789'')"

text \<open>The pattern \<open>/^0x[a-fA-F0-9]{40}$/\<close> of the handler and of the schema.\<close>

definition address_format :: "string \<Rightarrow> bool" where
  "address_format s =
     (take 2 s = ''0x'' \<and> length s = 42 \<and> list_all isHexDigit (drop 2 s))"

text \<open>\<open>/^\+91[0-9]{10}$/\<close>\<close>

definition phone_format :: "string \<Rightarrow> bool" where
  "phone_format s = (take 3 s = ''+91'' \<and> length s = 13 \<and> list_all isDigit (drop 3 s))"

text \<open>\<open>/^[A-Z]{5}[0-9]{4}[A-Z]{1}$/\<close>\<close>

definition pan_format :: "string \<Rightarrow> bool" where
  "pan_format s =
     (length s = 10 \<and> list_all isUpper (take 5 s) \<and> list_all isDigit (take 4 (drop 5 s))
      \<and> list_all isUpper (drop 9 s))"

text \<open>\<open>/^[0-9]{12}$/\<close> and \<open>/^[0-9]{6}$/\<close>\<close>

definition aadhaar_format :: "string \<Rightarrow> bool" where
  "aadhaar_format s = (length s = 12 \<and> list_all isDigit s)"

definition pin_format :: "string \<Rightarrow> bool" where
  "pin_format s = (length s = 6 \<and> list_all isDigit s)"

text \<open>
  The unanchored \<open>/.+@.+\..+/\<close>: somewhere in the string an \<open>@\<close> with a character before
  it, then one or more characters, a dot and one more character; \<open>.\<close> matches any
  character but a line terminator. \<open>after_at\<close> matches \<open>.+\..+\<close> at the start of what
  follows the \<open>@\<close> (\<open>seen\<close>: a character has been passed); \<open>email_scan\<close> tries every \<open>@\<close>,
  with the characters passed so far in hand, the last one first.
\<close>

definition at_line_terminator :: "string \<Rightarrow> bool" where
  "at_line_terminator s = (starts_with_any line_terminators s \<noteq> None)"

definition after_line_terminator :: "string \<Rightarrow> bool" where
  "after_line_terminator passed = (starts_with_any (map rev line_terminators) passed \<noteq> None)"

fun after_at :: "bool \<Rightarrow> string \<Rightarrow> bool" where
  "after_at seen [] = False"
| "after_at seen (c # cs) =
     (if at_line_terminator (c # cs) then False
      else if c = CHR ''.'' \<and> seen \<and> cs \<noteq> [] \<and> \<not> at_line_terminator cs then True
      else after_at True cs)"

fun email_scan :: "string \<Rightarrow> string \<Rightarrow> bool" where
  "email_scan passed [] = False"
| "email_scan passed (c # cs) =
     (if c = CHR ''@'' \<and> passed \<noteq> [] \<and> \<not> after_line_terminator passed \<and> after_at False cs
      then True
      else email_scan (c # passed) cs)"

definition email_format :: "string \<Rightarrow> bool" where
  "email_format s = email_scan [] s"

text \<open>The rupee sign of the income ranges, U+20B9, in UTF-8.\<close>

definition rupee :: string where
  "rupee = [CHR 0xE2, CHR 0x82, CHR 0xB9]"

definition employmentStatus_enum :: "string list" where
  "employmentStatus_enum =
     [''Salaried Employee'', ''Self-employed Professional'', ''Business Owner'', ''Farmer'',
      ''Student'', ''Housewife/Homemaker'', ''Retired'', ''Unemployed'']"

definition occupationCategory_enum :: "string list" where
  "occupationCategory_enum =
     [''Government Employee'', ''Private Sector Employee'', ''Public Sector Employee'',
      ''Doctor/Medical Professional'', ''Engineer/IT Professional'', ''Teacher/Professor'',
      ''Lawyer/Legal Professional'', ''Chartered Accountant/CA'', ''Architect'', ''Consultant'',
      ''Trader/Merchant'', ''Manufacturer'', ''Contractor'', ''Farmer/Agriculture'',
      ''Driver/Transport'', ''Shopkeeper/Retailer'', ''Freelancer'', ''Other Professional'',
      ''Other'']"

definition monthlyIncomeRange_enum :: "string list" where
  "monthlyIncomeRange_enum =
     [''Below '' @ rupee @ ''25,000'',
      rupee @ ''25,000 - '' @ rupee @ ''50,000'',
      rupee @ ''50,000 - '' @ rupee @ ''1,00,000'',
      rupee @ ''1,00,000 - '' @ rupee @ ''2,00,000'',
      rupee @ ''2,00,000 - '' @ rupee @ ''5,00,000'',
      ''Above '' @ rupee @ ''5,00,000'']"

definition creditPurpose_enum :: "string list" where
  "creditPurpose_enum =
     [''Personal Loan'', ''Credit Card'', ''Home Loan'', ''Car Loan'', ''Education Loan'',
      ''Business Loan'', ''Gold Loan'', ''Two-Wheeler Loan'', ''Other'']"

definition itrStatus_enum :: "string list" where
  "itrStatus_enum =
     [''Yes, regularly file ITR'', ''Filed ITR in past 2 years'', ''Never filed ITR'']"

definition educationalQualification_enum :: "string list" where
  "educationalQualification_enum =
     [''Below 10th'', ''10th Pass'', ''12th Pass'', ''Graduate'', ''Post Graduate'',
      ''Professional Degree'', ''Doctorate'']"

definition languagePreference_enum :: "string list" where
  "languagePreference_enum = [''English'', ''Hindi'', ''Regional'']"

definition communicationMethod_enum :: "string list" where
  "communicationMethod_enum = [''SMS'', ''Email'', ''WhatsApp'']"

definition maritalStatus_enum :: "string list" where
  "maritalStatus_enum = [''Single'', ''Married'', ''Divorced'', ''Widowed'']"

section \<open>The user document\<close>

text \<open>
  The fields of \<open>userSchema\<close>, in the schema's order. Dates are milliseconds since the
  epoch. A field that the schema does not require is an option, \<open>None\<close> when the document
  does not have it. \<open>user_fields\<close> is what \<open>User.create\<close> is given; the stored document
  adds the \<open>_id\<close> (here \<open>doc_id\<close>) and the defaulted \<open>createdAt\<close>.
\<close>

record user_fields =
  username :: string
  email :: string
  passwordHash :: string
  walletAddress :: "string option"
  walletConnectedAt :: "int option"
  lastWalletActivity :: "int option"
  firstName :: string
  middleName :: "string option"
  lastName :: string
  fatherOrSpouseName :: "string option"
  dateOfBirth :: int
  phoneNumber :: string
  pan :: string
  aadhaar :: string
  streetAddress :: string
  areaLocality :: string
  city :: string
  state :: string
  pinCode :: string
  country :: string
  employmentStatus :: string
  occupationCategory :: string
  companyName :: string
  yearsOfExperience :: int
  monthlyIncomeRange :: string
  hasCreditAccounts :: bool
  creditPurpose :: string
  hasBankAccount :: bool
  primaryBankName :: string
  existingCreditScore :: int
  termsAccepted :: bool
  privacyPolicyAccepted :: bool
  consentCreditBureau :: bool
  ageVerified :: bool
  itrStatus :: string
  educationalQualification :: "string option"
  languagePreference :: "string option"
  communicationMethod :: "string option"
  maritalStatus :: "string option"
  numberOfDependents :: "int option"

record user = user_fields +
  doc_id :: nat
  createdAt :: int

text \<open>The schema's setters: \<open>trim\<close> on the user name, \<open>lowercase\<close> on e-mail and address.\<close>

definition apply_setters :: "user_fields \<Rightarrow> user_fields" where
  "apply_setters f =
     f\<lparr>username := trim (username f),
       email := toLowerCase (email f),
       walletAddress := map_option toLowerCase (walletAddress f)\<rparr>"

definition opt_in_enum :: "string list \<Rightarrow> string option \<Rightarrow> bool" where
  "opt_in_enum vs x = (case x of None \<Rightarrow> True | Some v \<Rightarrow> v \<in> set vs)"

text \<open>
  The schema's validators: \<open>required\<close> (a required string is not empty), \<open>match\<close> (which
  lets the empty string through), \<open>enum\<close> and \<open>min\<close>.
\<close>

definition schema_valid :: "user_fields \<Rightarrow> bool" where
  "schema_valid f =
     (username f \<noteq> [] \<and>
      email f \<noteq> [] \<and> email_format (email f) \<and>
      passwordHash f \<noteq> [] \<and>
      (case walletAddress f of None \<Rightarrow> True | Some w \<Rightarrow> w = [] \<or> address_format w) \<and>
      firstName f \<noteq> [] \<and> lastName f \<noteq> [] \<and>
      phoneNumber f \<noteq> [] \<and> phone_format (phoneNumber f) \<and>
      pan f \<noteq> [] \<and> pan_format (pan f) \<and>
      aadhaar f \<noteq> [] \<and> aadhaar_format (aadhaar f) \<and>
      streetAddress f \<noteq> [] \<and> areaLocality f \<noteq> [] \<and> city f \<noteq> [] \<and> state f \<noteq> [] \<and>
      pinCode f \<noteq> [] \<and> pin_format (pinCode f) \<and>
      country f \<noteq> [] \<and>
      employmentStatus f \<in> set employmentStatus_enum \<and>
      occupationCategory f \<in> set occupationCategory_enum \<and>
      companyName f \<noteq> [] \<and>
      0 \<le> yearsOfExperience f \<and>
      monthlyIncomeRange f \<in> set monthlyIncomeRange_enum \<and>
      creditPurpose f \<in> set creditPurpose_enum \<and>
      primaryBankName f \<noteq> [] \<and>
      0 \<le> existingCreditScore f \<and>
      itrStatus f \<in> set itrStatus_enum \<and>
      opt_in_enum educationalQualification_enum (educationalQualification f) \<and>
      opt_in_enum languagePreference_enum (languagePreference f) \<and>
      opt_in_enum communicationMethod_enum (communicationMethod f) \<and>
      opt_in_enum maritalStatus_enum (maritalStatus f) \<and>
      (case numberOfDependents f of None \<Rightarrow> True | Some n \<Rightarrow> 0 \<le> n))"

section \<open>The store\<close>

text \<open>
  The \<open>users\<close> collection in insertion order, and the next fresh \<open>_id\<close>. What the handlers
  can catch is a value of \<open>thrown\<close>.
\<close>

record store =
  users :: "user list"
  nextId :: nat

datatype thrown =
    ValidationError
  | DuplicateKeyError string
  | DocumentNotFoundError
  | JwtError

text \<open>
  \<open>User.findOne({ walletAddress: a })\<close> and \<open>User.findOne({ username })\<close>. The value of
  the filter is cast through the schema's setters as a stored value is (\<open>lowercase\<close> on
  the address, \<open>trim\<close> on the user name); the answer is the first document whose field
  equals the cast value.
\<close>

definition findOne_walletAddress :: "string \<Rightarrow> store \<Rightarrow> user option" where
  "findOne_walletAddress a db = find (\<lambda>u. walletAddress u = Some (toLowerCase a)) (users db)"

definition findOne_username :: "string \<Rightarrow> store \<Rightarrow> user option" where
  "findOne_username n db = find (\<lambda>u. username u = trim n) (users db)"

text \<open>
  The unique indexes on \<open>username\<close>, \<open>email\<close> and (sparse: only documents that have the
  field) \<open>walletAddress\<close>; the result names the index that rejects the insertion.
\<close>

definition duplicate_key :: "user_fields \<Rightarrow> user list \<Rightarrow> string option" where
  "duplicate_key d us =
     (if list_ex (\<lambda>u. username u = username d) us then Some ''username''
      else if list_ex (\<lambda>u. email u = email d) us then Some ''email''
      else if walletAddress d \<noteq> None \<and> list_ex (\<lambda>u. walletAddress u = walletAddress d) us
      then Some ''walletAddress''
      else None)"

text \<open>
  \<open>User.create(fields)\<close>: build the document (setters, \<open>_id\<close>, the \<open>createdAt\<close> default read
  from the clock), validate it, insert it under the unique indexes. Either the whole
  document is stored or nothing is.
\<close>

definition User_create :: "int \<Rightarrow> user_fields \<Rightarrow> store \<Rightarrow> thrown + (user \<times> store)" where
  "User_create now f db =
     (let d = apply_setters f in
      if \<not> schema_valid d then Inl ValidationError
      else case duplicate_key d (users db) of
             Some k \<Rightarrow> Inl (DuplicateKeyError k)
           | None \<Rightarrow>
               (let u = user_fields.extend d \<lparr>doc_id = nextId db, createdAt = now\<rparr>
                in Inr (u, db\<lparr>users := users db @ [u], nextId := Suc (nextId db)\<rparr>)))"

text \<open>
  \<open>user.save()\<close> after \<open>user.lastWalletActivity = t\<close>: the document in hand is validated
  against the schema, as it was loaded (a stored document that the schema refuses, one
  with an empty credential hash for instance, cannot be saved); then the one modified
  path is written to the stored document with the same \<open>_id\<close>; when there is none any
  more, it throws.
\<close>

fun set_lastWalletActivity :: "nat \<Rightarrow> int \<Rightarrow> user list \<Rightarrow> user list option" where
  "set_lastWalletActivity i t [] = None"
| "set_lastWalletActivity i t (u # us) =
     (if doc_id u = i then Some (u\<lparr>lastWalletActivity := Some t\<rparr> # us)
      else map_option ((#) u) (set_lastWalletActivity i t us))"

definition save_lastWalletActivity :: "user \<Rightarrow> int \<Rightarrow> store \<Rightarrow> thrown + store" where
  "save_lastWalletActivity u t db =
     (if \<not> schema_valid (user_fields.truncate (u\<lparr>lastWalletActivity := Some t\<rparr>))
      then Inl ValidationError
      else
        (case set_lastWalletActivity (doc_id u) t (users db) of
           None \<Rightarrow> Inl DocumentNotFoundError
         | Some us \<Rightarrow> Inr (db\<lparr>users := us\<rparr>)))"

section \<open>The collaborators of the handlers\<close>

text \<open>
  What the handlers take from outside: the signature library (\<open>ethers.verifyMessage\<close>
  returns the recovered address, \<open>None\<close> when it throws), \<open>Math.random().toString(36)\<close>,
  the salt and hash of \<open>bcryptjs\<close>, the successive readings of the clock within one
  request (\<open>clock e k\<close> is the reading number \<open>k\<close>, in milliseconds), and
  \<open>process.env.JWT_SECRET\<close>.
\<close>

record env =
  verifyMessage :: "string \<Rightarrow> string \<Rightarrow> string option"
  mathRandom36 :: string
  genSalt :: string
  bcryptHash :: "string \<Rightarrow> string \<Rightarrow> string"
  bcryptCompare :: "string \<Rightarrow> string \<Rightarrow> bool"
  clock :: "nat \<Rightarrow> int"
  JWT_SECRET :: "string option"

subsection \<open>Tokens\<close>

text \<open>
  \<open>jwt.sign(payload, secret, { expiresIn })\<close>. The token is kept as its claims and the key
  that signed it. \<open>expiresIn\<close> is a time span read as the library reads it, a decimal
  number and a unit; the spans modelled are a whole number followed by \<open>s\<close>, \<open>m\<close>, \<open>h\<close> or
  \<open>d\<close>, which covers the two constants the handlers pass, \<open>24h\<close> and \<open>1h\<close>. \<open>iat\<close> is the
  clock in seconds and \<open>exp\<close> is \<open>iat\<close> plus the span. Signing throws without a secret.
\<close>

record claims =
  tok_userId :: nat
  tok_username :: string
  tok_email :: string
  tok_walletAddress :: "string option"

record token = claims +
  iat :: int
  exp :: int
  signing_key :: string

definition digit_value :: "char \<Rightarrow> nat" where
  "digit_value c = length (takeWhile (\<lambda>d. d \<noteq> c) ''0123456789'')"

definition decimal :: "string \<Rightarrow> nat" where
  "decimal ds = foldl (\<lambda>n c. 10 * n + digit_value c) 0 ds"

definition unit_seconds :: "string \<Rightarrow> int option" where
  "unit_seconds u =
     (if u = ''s'' then Some 1
      else if u = ''m'' then Some 60
      else if u = ''h'' then Some 3600
      else if u = ''d'' then Some 86400
      else None)"

definition timespan :: "string \<Rightarrow> int option" where
  "timespan s =
     (if takeWhile isDigit s = [] then None
      else map_option (\<lambda>k. int (decimal (takeWhile isDigit s)) * k)
             (unit_seconds (dropWhile isDigit s)))"

definition jwt_sign :: "claims \<Rightarrow> string option \<Rightarrow> string \<Rightarrow> int \<Rightarrow> thrown + token" where
  "jwt_sign payload secret expiresIn now_ms =
     (case secret of
        None \<Rightarrow> Inl JwtError
      | Some k \<Rightarrow>
          if k = [] then Inl JwtError
          else
            (case timespan expiresIn of
               None \<Rightarrow> Inl JwtError
             | Some span \<Rightarrow>
                 Inr (claims.extend payload
                        \<lparr>iat = now_ms div 1000, exp = now_ms div 1000 + span,
                         signing_key = k\<rparr>)))"

subsection \<open>Requests, responses and what a handler leaves behind\<close>

text \<open>
  A field of the wallet request body is a string or absent. The login body carries its two
  strings. A response without an explicit status is a 200.
\<close>

record wallet_request =
  req_walletAddress :: "string option"
  req_message :: "string option"
  req_signature :: "string option"

record login_request =
  req_username :: string
  req_password :: string

record session_user =
  res_id :: nat
  res_username :: string
  res_email :: string
  res_walletAddress :: "string option"
  res_firstName :: string
  res_lastName :: string
  res_walletConnectedAt :: "int option"

datatype body =
    ErrorBody string
  | WalletAuthBody token session_user
  | LoginBody token user

record response =
  status :: nat
  body :: body

text \<open>The calls a handler makes to the verifier, the store and the signer, in order.\<close>

datatype call =
    Call_verifyMessage string string
  | Call_warn
  | Call_findOne string
  | Call_create
  | Call_save
  | Call_sign

record outcome =
  resp :: response
  db_after :: store
  calls :: "call list"

definition reject :: "nat \<Rightarrow> string \<Rightarrow> store \<Rightarrow> call list \<Rightarrow> outcome" where
  "reject code msg db cs =
     \<lparr>resp = \<lparr>status = code, body = ErrorBody msg\<rparr>, db_after = db, calls = cs\<rparr>"

text \<open>JavaScript's \<open>!x\<close> on a field that is a string or absent, and the string of a field.\<close>

definition falsy :: "string option \<Rightarrow> bool" where
  "falsy x = (case x of None \<Rightarrow> True | Some s \<Rightarrow> s = [])"

definition str_of :: "string option \<Rightarrow> string" where
  "str_of x = (case x of None \<Rightarrow> [] | Some s \<Rightarrow> s)"

section \<open>walletAuth\<close>

text \<open>The object that \<open>walletAuth\<close> hands to \<open>User.create\<close> for a new address.\<close>

definition new_wallet_user :: "env \<Rightarrow> string \<Rightarrow> user_fields" where
  "new_wallet_user e a =
     \<lparr>username = ''wallet_'' @ toLowerCase (slice_last8 a),
      email = toLowerCase a @ ''@nexacred.wallet'',
      passwordHash = bcryptHash e (substring7 (mathRandom36 e)) (genSalt e),
      walletAddress = Some (toLowerCase a),
      walletConnectedAt = Some (clock e 0),
      lastWalletActivity = Some (clock e 1),
      firstName = ''Wallet'',
      middleName = None,
      lastName = ''User'',
      fatherOrSpouseName = None,
      dateOfBirth = 631152000000,
      phoneNumber = ''+919999999999'',
      pan = ''AAAAA0000A'',
      aadhaar = ''999999999999'',
      streetAddress = ''Web3 Address'',
      areaLocality = ''Blockchain'',
      city = ''Crypto'',
      state = ''Decentralized'',
      pinCode = ''000000'',
      country = ''Global'',
      employmentStatus = ''Self-employed Professional'',
      occupationCategory = ''Other Professional'',
      companyName = ''Decentralized Autonomous'',
      yearsOfExperience = 1,
      monthlyIncomeRange = rupee @ ''50,000 - '' @ rupee @ ''1,00,000'',
      hasCreditAccounts = False,
      creditPurpose = ''Personal Loan'',
      hasBankAccount = True,
      primaryBankName = ''Crypto Bank'',
      existingCreditScore = 650,
      termsAccepted = True,
      privacyPolicyAccepted = True,
      consentCreditBureau = True,
      ageVerified = True,
      itrStatus = ''Filed ITR in past 2 years'',
      educationalQualification = None,
      languagePreference = None,
      communicationMethod = None,
      maritalStatus = None,
      numberOfDependents = None\<rparr>"

text \<open>
  The end of the handler: sign the token with a 24 hour expiry and answer with the token
  and seven fields of the user. \<open>k\<close> is the number of clock readings taken so far.
\<close>

definition walletAuth_respond :: "env \<Rightarrow> nat \<Rightarrow> user \<Rightarrow> store \<Rightarrow> call list \<Rightarrow> outcome" where
  "walletAuth_respond e k u db cs =
     (case jwt_sign \<lparr>tok_userId = doc_id u, tok_username = username u, tok_email = email u,
                     tok_walletAddress = walletAddress u\<rparr>
             (JWT_SECRET e) ''24h'' (clock e k) of
        Inl err \<Rightarrow> reject 500 ''Server error during wallet authentication'' db (cs @ [Call_sign])
      | Inr t \<Rightarrow>
          \<lparr>resp = \<lparr>status = 200,
                   body = WalletAuthBody t
                            \<lparr>res_id = doc_id u, res_username = username u, res_email = email u,
                             res_walletAddress = walletAddress u, res_firstName = firstName u,
                             res_lastName = lastName u,
                             res_walletConnectedAt = walletConnectedAt u\<rparr>\<rparr>,
           db_after = db, calls = cs @ [Call_sign]\<rparr>)"

text \<open>
  The middle of the handler, from \<open>User.findOne\<close> on. The handler is suspended between
  its lookup and its write; \<open>other\<close> is what the requests running beside it do to the
  store in between (the identity when it runs alone).
\<close>

definition walletAuth_resolve ::
  "env \<Rightarrow> (store \<Rightarrow> store) \<Rightarrow> string \<Rightarrow> store \<Rightarrow> call list \<Rightarrow> outcome" where
  "walletAuth_resolve e other a db cs =
     (case findOne_walletAddress (toLowerCase a) db of
        None \<Rightarrow>
          (case User_create (clock e 2) (new_wallet_user e a) (other db) of
             Inl err \<Rightarrow>
               reject 500 ''Server error during wallet authentication'' (other db)
                 (cs @ [Call_findOne (toLowerCase a), Call_create])
           | Inr (u, db') \<Rightarrow>
               walletAuth_respond e 3 u db' (cs @ [Call_findOne (toLowerCase a), Call_create]))
      | Some found \<Rightarrow>
          (case save_lastWalletActivity found (clock e 0) (other db) of
             Inl err \<Rightarrow>
               reject 500 ''Server error during wallet authentication'' (other db)
                 (cs @ [Call_findOne (toLowerCase a), Call_save])
           | Inr db' \<Rightarrow>
               walletAuth_respond e 1 (found\<lparr>lastWalletActivity := Some (clock e 0)\<rparr>) db'
                 (cs @ [Call_findOne (toLowerCase a), Call_save])))"

definition walletAuth :: "env \<Rightarrow> (store \<Rightarrow> store) \<Rightarrow> wallet_request \<Rightarrow> store \<Rightarrow> outcome" where
  "walletAuth e other req db =
     (if falsy (req_walletAddress req) \<or> falsy (req_message req) \<or> falsy (req_signature req)
      then reject 400 ''Wallet address, message, and signature are required'' db []
      else if \<not> address_format (str_of (req_walletAddress req))
      then reject 400 ''Invalid wallet address format'' db []
      else
        (case verifyMessage e (str_of (req_message req)) (str_of (req_signature req)) of
           Some recoveredAddress \<Rightarrow>
             if toLowerCase recoveredAddress \<noteq> toLowerCase (str_of (req_walletAddress req))
             then reject 400 ''Invalid signature'' db
                    [Call_verifyMessage (str_of (req_message req)) (str_of (req_signature req))]
             else walletAuth_resolve e other (str_of (req_walletAddress req)) db
                    [Call_verifyMessage (str_of (req_message req)) (str_of (req_signature req))]
         | None \<Rightarrow>
             walletAuth_resolve e other (str_of (req_walletAddress req)) db
               [Call_verifyMessage (str_of (req_message req)) (str_of (req_signature req)),
                Call_warn]))"

section \<open>loginUser\<close>

text \<open>
  The traditional login: look the user name up, compare the password with the stored
  hash, sign a token with a one hour expiry and answer with the token
  and the whole user document.
\<close>

definition loginUser :: "env \<Rightarrow> login_request \<Rightarrow> store \<Rightarrow> outcome" where
  "loginUser e req db =
     (case findOne_username (req_username req) db of
        None \<Rightarrow> reject 400 ''Invalid credentials'' db [Call_findOne (req_username req)]
      | Some u \<Rightarrow>
          if \<not> bcryptCompare e (req_password req) (passwordHash u)
          then reject 400 ''Invalid credentials'' db [Call_findOne (req_username req)]
          else
            (case jwt_sign \<lparr>tok_userId = doc_id u, tok_username = username u,
                            tok_email = email u, tok_walletAddress = None\<rparr>
                    (JWT_SECRET e) ''1h'' (clock e 0) of
               Inl err \<Rightarrow>
                 reject 500 ''Server error'' db [Call_findOne (req_username req), Call_sign]
             | Inr t \<Rightarrow>
                 \<lparr>resp = \<lparr>status = 200, body = LoginBody t u\<rparr>, db_after = db,
                  calls = [Call_findOne (req_username req), Call_sign]\<rparr>))"

section \<open>Notions the properties are stated with\<close>

text \<open>
  A store where every \<open>_id\<close> occurs once and is older than the next fresh one.
\<close>

definition wf_store :: "store \<Rightarrow> bool" where
  "wf_store db =
     (distinct (map doc_id (users db)) \<and> list_all (\<lambda>u. doc_id u < nextId db) (users db))"

text \<open>The seven fields of a user document that a \<open>walletAuth\<close> response shows.\<close>

definition shown_fields :: "user \<Rightarrow> session_user" where
  "shown_fields u =
     \<lparr>res_id = doc_id u, res_username = username u, res_email = email u,
      res_walletAddress = walletAddress u, res_firstName = firstName u,
      res_lastName = lastName u, res_walletConnectedAt = walletConnectedAt u\<rparr>"

text \<open>A user document with its credential hash blanked out.\<close>

definition redact :: "user \<Rightarrow> user" where
  "redact u = u\<lparr>passwordHash := []\<rparr>"

section \<open>Sample data\<close>

text \<open>
  A verifier that recovers a mixed-case address from one signature, a second address with
  the same last eight digits from another, and throws on anything else; a clock that
  advances by one millisecond at each reading; requests and stores to run the handlers on.
\<close>

definition addr_mixed :: string where
  "addr_mixed = ''0xAbCdEf0123456789aBcDeF0123456789abcdef01''"

definition addr_upper :: string where
  "addr_upper = ''0xABCDEF0123456789ABCDEF0123456789ABCDEF01''"

definition addr_twin :: string where
  "addr_twin = ''0x00000000000000000000000000000000abcdef01''"

definition sample_env :: env where
  "sample_env =
     \<lparr>verifyMessage =
        (\<lambda>m s. if s = ''0xsigned-by-mixed'' then Some addr_mixed
               else if s = ''0xsigned-by-twin'' then Some addr_twin
               else None),
      mathRandom36 = ''0.4fzyo82mvyr'',
      genSalt = ''$2a$10$N9qo8uLOickgx2ZMRZoMye'',
      bcryptHash = (\<lambda>p s. s @ p),
      bcryptCompare = (\<lambda>p h. h = ''$2a$10$N9qo8uLOickgx2ZMRZoMye'' @ p),
      clock = (\<lambda>k. 1700000000000 + int k),
      JWT_SECRET = Some ''server-secret''\<rparr>"

definition later_env :: env where
  "later_env = sample_env\<lparr>clock := (\<lambda>k. 1700000060000 + int k)\<rparr>"

definition sample_request :: "string \<Rightarrow> string \<Rightarrow> wallet_request" where
  "sample_request a s =
     \<lparr>req_walletAddress = Some a, req_message = Some ''Sign in to NexaCred'',
      req_signature = Some s\<rparr>"

definition empty_store :: store where
  "empty_store = \<lparr>users = [], nextId = 0\<rparr>"

text \<open>The store after the owner of \<open>addr_mixed\<close> has authenticated once.\<close>

definition one_wallet_store :: store where
  "one_wallet_store =
     db_after (walletAuth sample_env id (sample_request addr_mixed ''0xsigned-by-mixed'')
                 empty_store)"

definition sample_login :: login_request where
  "sample_login = \<lparr>req_username = ''wallet_abcdef01'', req_password = ''82mvyr''\<rparr>"

text \<open>
  A second request for \<open>addr_mixed\<close> that runs to its end while the first is suspended
  between its lookup and its write.
\<close>

definition racing_twin :: "store \<Rightarrow> store" where
  "racing_twin db =
     db_after (walletAuth sample_env id (sample_request addr_mixed ''0xsigned-by-mixed'') db)"

text \<open>
  The same store with another credential hash in its record, and an environment whose
  random password, salt and hash function are others.
\<close>

definition rehashed_store :: store where
  "rehashed_store =
     one_wallet_store
       \<lparr>users := map (\<lambda>u. u\<lparr>passwordHash := ''$2a$10$another-hash''\<rparr>) (users one_wallet_store)\<rparr>"

definition rehashing_env :: env where
  "rehashing_env =
     later_env\<lparr>mathRandom36 := ''0.9x8c7v6b5n4'', genSalt := ''$2a$10$another-salt'',
                bcryptHash := (\<lambda>p s. ''hash of '' @ p @ s)\<rparr>"

section \<open>Properties of the handlers\<close>

subsection \<open>Lower case\<close>

lemma lower_not_upper:
  "list_all (\<lambda>d. d \<notin> set ''ABCDEFGHIJKLMNOPQRSTUVWXYZ'') ''abcdefghijklmnopqrstuvwxyz''"
  by code_simp

lemma toLowerChar_idem: "toLowerChar (toLowerChar c) = toLowerChar c"
proof (cases "map_of (zip ''ABCDEFGHIJKLMNOPQRSTUVWXYZ'' ''abcdefghijklmnopqrstuvwxyz'') c")
  case None
  then show ?thesis by (simp add: toLowerChar_def)
next
  case (Some d)
  then have "d \<in> set ''abcdefghijklmnopqrstuvwxyz''"
    by (meson map_of_SomeD set_zip_rightD)
  with lower_not_upper have "d \<notin> set ''ABCDEFGHIJKLMNOPQRSTUVWXYZ''"
    unfolding list_all_iff by blast
  then have "map_of (zip ''ABCDEFGHIJKLMNOPQRSTUVWXYZ'' ''abcdefghijklmnopqrstuvwxyz'') d = None"
    by (subst map_of_zip_is_None) simp_all
  with Some show ?thesis by (simp add: toLowerChar_def)
qed

lemma toLowerCase_idem [simp]: "toLowerCase (toLowerCase s) = toLowerCase s"
  by (simp add: toLowerCase_def toLowerChar_idem)

lemma toLowerCase_length [simp]: "length (toLowerCase s) = length s"
  by (simp add: toLowerCase_def)


subsection \<open>Documents and the store\<close>

lemma reject_simps [simp]:
  "resp (reject c m db cs) = \<lparr>status = c, body = ErrorBody m\<rparr>"
  "db_after (reject c m db cs) = db"
  "calls (reject c m db cs) = cs"
  by (simp_all add: reject_def)

lemma extend_sel [simp]:
  "username (user_fields.extend d m) = username d"
  "email (user_fields.extend d m) = email d"
  "passwordHash (user_fields.extend d m) = passwordHash d"
  "walletAddress (user_fields.extend d m) = walletAddress d"
  "walletConnectedAt (user_fields.extend d m) = walletConnectedAt d"
  "lastWalletActivity (user_fields.extend d m) = lastWalletActivity d"
  "firstName (user_fields.extend d m) = firstName d"
  "lastName (user_fields.extend d m) = lastName d"
  "user_fields.more (user_fields.extend d m) = m"
  "doc_id (user_fields.extend d \<lparr>doc_id = i, createdAt = c\<rparr>) = i"
  "createdAt (user_fields.extend d \<lparr>doc_id = i, createdAt = c\<rparr>) = c"
  "user_fields.truncate (user_fields.extend d m) = user_fields.truncate d"
  by (simp_all add: user_fields.extend_def user_fields.truncate_def)

lemma truncate_fields [simp]: "user_fields.truncate (d :: user_fields) = d"
  by (simp add: user_fields.truncate_def)

lemma truncate_lastWalletActivity:
  "user_fields.truncate (u\<lparr>lastWalletActivity := x\<rparr>)
     = (user_fields.truncate u)\<lparr>lastWalletActivity := x\<rparr>"
  by (simp add: user_fields.truncate_def)

lemma truncate_passwordHash:
  "user_fields.truncate (u\<lparr>passwordHash := x\<rparr>)
     = (user_fields.truncate u)\<lparr>passwordHash := x\<rparr>"
  by (simp add: user_fields.truncate_def)

lemma schema_valid_lastWalletActivity [simp]:
  "schema_valid (user_fields.truncate (u\<lparr>lastWalletActivity := x\<rparr>))
     = schema_valid (user_fields.truncate u)"
  unfolding truncate_lastWalletActivity by (simp add: schema_valid_def)

lemma new_wallet_user_sel:
  "walletAddress (new_wallet_user e a) = Some (toLowerCase a)"
  "lastWalletActivity (new_wallet_user e a) = Some (clock e 1)"
  "walletConnectedAt (new_wallet_user e a) = Some (clock e 0)"
  "username (new_wallet_user e a) = ''wallet_'' @ toLowerCase (slice_last8 a)"
  "email (new_wallet_user e a) = toLowerCase a @ ''@nexacred.wallet''"
  "passwordHash (new_wallet_user e a) = bcryptHash e (substring7 (mathRandom36 e)) (genSalt e)"
  by (simp_all add: new_wallet_user_def)

lemma shown_fields_lastWalletActivity [simp]:
  "shown_fields (u\<lparr>lastWalletActivity := x\<rparr>) = shown_fields u"
  by (simp add: shown_fields_def)

lemma redact_passwordHash [simp]: "redact (u\<lparr>passwordHash := x\<rparr>) = redact u"
  by (simp add: redact_def)

lemma User_create_Inr:
  assumes "User_create now f db = Inr (u, db')"
  shows "u = user_fields.extend (apply_setters f) \<lparr>doc_id = nextId db, createdAt = now\<rparr>"
    and "db' = db\<lparr>users := users db @ [u], nextId := Suc (nextId db)\<rparr>"
    and "schema_valid (apply_setters f)"
    and "duplicate_key (apply_setters f) (users db) = None"
  using assms
  by (auto simp: User_create_def Let_def split: if_splits option.splits)

lemma User_create_duplicate_walletAddress:
  assumes "list_ex (\<lambda>u. walletAddress u = walletAddress (apply_setters f)) (users db)"
    and "walletAddress f \<noteq> None"
  shows "\<exists>err. User_create now f db = Inl err"
  using assms by (auto simp: User_create_def Let_def duplicate_key_def apply_setters_def)

text \<open>
  The document built for a well-formed address passes the schema's setters unchanged: the
  user name has no white space at either end, e-mail and address are lower case already.
\<close>

lemma strip_leading_id:
  assumes "[] \<notin> set ws" and "c \<notin> hd ` set ws"
  shows "strip_leading ws (c # cs) = c # cs"
proof -
  have "take (length w) (c # cs) \<noteq> w" if "w \<in> set ws" for w
  proof (cases w)
    case Nil
    with that assms(1) show ?thesis by simp
  next
    case (Cons h t)
    with that assms(2) have "h \<noteq> c" by force
    with Cons show ?thesis by simp
  qed
  then have "starts_with_any ws (c # cs) = None"
    by (simp add: starts_with_any_def find_None_iff)
  then show ?thesis by simp
qed

lemma trim_id:
  assumes "s \<noteq> []" and "hd s \<notin> hd ` set white_space"
    and "last s \<notin> last ` set white_space"
  shows "trim s = s"
proof -
  have ne: "[] \<notin> set white_space"
    by (simp add: white_space_def line_terminators_def)
  from assms(1) obtain c cs where s: "s = c # cs"
    by (cases s) auto
  from strip_leading_id [OF ne, of c cs] assms(2) s
  have front: "strip_leading white_space s = s"
    by simp
  from assms(1) obtain d ds where r: "rev s = d # ds"
    by (cases "rev s") auto
  then have "d = last s"
    by (metis last_rev list.sel(1) rev_rev_ident)
  moreover have "hd ` set (map rev white_space) = last ` set white_space"
    by (simp add: white_space_def line_terminators_def)
  ultimately have d: "d \<notin> hd ` set (map rev white_space)"
    using assms(3) by simp
  from ne have "[] \<notin> set (map rev white_space)"
    by auto
  from strip_leading_id [OF this d, of ds] r
  have "strip_leading (map rev white_space) (rev s) = rev s"
    by simp
  with front show ?thesis by (simp add: trim_def)
qed

lemma hex_lower_not_space:
  "list_all (\<lambda>c. toLowerChar c \<notin> set (map last white_space)) ''abcdefABCDEF0123456789''"
  by code_simp

lemma isHexDigit_lower_not_space:
  "isHexDigit c \<Longrightarrow> toLowerChar c \<notin> last ` set white_space"
  using hex_lower_not_space unfolding list_all_iff isHexDigit_def by auto

lemma wallet_username_trim:
  assumes "address_format a"
  shows "trim (''wallet_'' @ toLowerCase (slice_last8 a)) = ''wallet_'' @ toLowerCase (slice_last8 a)"
proof (rule trim_id)
  from assms have len: "length a = 42" and hex: "list_all isHexDigit (drop 2 a)"
    by (simp_all add: address_format_def)
  have ne: "slice_last8 a \<noteq> []"
    using len by (simp add: slice_last8_def)
  have "last (slice_last8 a) = last a"
    using len by (simp add: slice_last8_def)
  also have "last a = last (drop 2 a)"
    using len by simp
  also have "last (drop 2 a) \<in> set (drop 2 a)"
    using len by (intro last_in_set) simp
  finally have "isHexDigit (last (slice_last8 a))"
    using hex by (simp add: list_all_iff)
  with ne show "last (''wallet_'' @ toLowerCase (slice_last8 a)) \<notin> last ` set white_space"
    by (simp add: toLowerCase_def last_map isHexDigit_lower_not_space)
qed (simp_all add: white_space_def line_terminators_def)

lemma apply_setters_new_wallet_user:
  assumes "address_format a"
  shows "apply_setters (new_wallet_user e a) = new_wallet_user e a"
proof -
  have "toLowerCase (toLowerCase a @ ''@nexacred.wallet'') = toLowerCase a @ ''@nexacred.wallet''"
    by (simp add: toLowerCase_def toLowerChar_idem toLowerChar_def)
  with wallet_username_trim [OF assms] show ?thesis
    by (simp add: apply_setters_def new_wallet_user_def)
qed

text \<open>When every \<open>_id\<close> occurs once, a save writes to the document it was read from.\<close>

lemma set_lastWalletActivity_distinct:
  assumes "distinct (map doc_id us)" and "i < length us"
  shows "set_lastWalletActivity (doc_id (us ! i)) t us
       = Some (us[i := (us ! i)\<lparr>lastWalletActivity := Some t\<rparr>])"
  using assms
proof (induction us arbitrary: i)
  case Nil
  then show ?case by simp
next
  case (Cons u us)
  show ?case
  proof (cases i)
    case 0
    then show ?thesis by simp
  next
    case (Suc j)
    with Cons.prems have "doc_id u \<noteq> doc_id (us ! j)" and "j < length us"
      by auto
    with Cons.IH [of j] Cons.prems Suc show ?thesis by simp
  qed
qed

lemma find_index:
  assumes "find P us = Some u"
  shows "\<exists>i < length us. us ! i = u \<and> P u \<and> (\<forall>j < i. \<not> P (us ! j))"
  using assms by (auto simp: find_Some_iff)

lemma wf_store_update:
  assumes "wf_store db" and "i < length (users db)"
  shows "wf_store (db\<lparr>users := (users db)[i := (users db ! i)\<lparr>lastWalletActivity := x\<rparr>]\<rparr>)"
proof -
  have "map doc_id ((users db)[i := (users db ! i)\<lparr>lastWalletActivity := x\<rparr>]) = map doc_id (users db)"
  proof (rule nth_equalityI)
    fix k
    assume "k < length (map doc_id ((users db)[i := (users db ! i)\<lparr>lastWalletActivity := x\<rparr>]))"
    then have "k < length (users db)" by simp
    then show "map doc_id ((users db)[i := (users db ! i)\<lparr>lastWalletActivity := x\<rparr>]) ! k
             = map doc_id (users db) ! k"
      by (cases "k = i") (simp_all add: nth_list_update)
  qed simp
  moreover have "list_all (\<lambda>u. doc_id u < nextId db)
      ((users db)[i := (users db ! i)\<lparr>lastWalletActivity := x\<rparr>])"
    using assms
    by (auto simp: wf_store_def list_all_iff dest!: subsetD [OF set_update_subset_insert])
  ultimately show ?thesis using assms(1) by (simp add: wf_store_def)
qed

lemma wf_store_append:
  assumes "wf_store db" and "doc_id u = nextId db"
  shows "wf_store (db\<lparr>users := users db @ [u], nextId := Suc (nextId db)\<rparr>)"
  using assms by (auto simp: wf_store_def list_all_iff)

subsection \<open>Tokens and their lifetimes\<close>

lemma jwt_sign_Inr:
  assumes "jwt_sign p k x now = Inr t" and "timespan x = Some d"
  shows "iat t = now div 1000" and "exp t = now div 1000 + d"
  using assms
  by (auto simp: jwt_sign_def claims.extend_def split: option.splits if_splits)

lemma timespan_24h: "timespan ''24h'' = Some 86400"
  by (simp add: timespan_def isDigit_def unit_seconds_def decimal_def digit_value_def)

lemma timespan_1h: "timespan ''1h'' = Some 3600"
  by (simp add: timespan_def isDigit_def unit_seconds_def decimal_def digit_value_def)

lemma findOne_walletAddress_toLowerCase:
  "findOne_walletAddress (toLowerCase a) db = findOne_walletAddress a db"
  by (simp add: findOne_walletAddress_def)

lemma walletAuth_respond_200:
  assumes "status (resp (walletAuth_respond e k u db cs)) = 200"
  shows "\<exists>t su. body (resp (walletAuth_respond e k u db cs)) = WalletAuthBody t su
           \<and> iat t = clock e k div 1000 \<and> exp t = clock e k div 1000 + 86400"
proof (cases "jwt_sign \<lparr>tok_userId = doc_id u, tok_username = username u, tok_email = email u,
                        tok_walletAddress = walletAddress u\<rparr>
                (JWT_SECRET e) ''24h'' (clock e k)")
  case (Inl err)
  with assms show ?thesis by (simp add: walletAuth_respond_def)
next
  case (Inr t)
  from jwt_sign_Inr [OF Inr timespan_24h] Inr show ?thesis
    by (simp add: walletAuth_respond_def)
qed

lemma walletAuth_resolve_200:
  assumes "status (resp (walletAuth_resolve e other a db cs)) = 200"
  shows "\<exists>t su. body (resp (walletAuth_resolve e other a db cs)) = WalletAuthBody t su
           \<and> iat t = clock e (case findOne_walletAddress (toLowerCase a) db of
                                None \<Rightarrow> 3 | Some found \<Rightarrow> 1) div 1000
           \<and> exp t = clock e (case findOne_walletAddress (toLowerCase a) db of
                                None \<Rightarrow> 3 | Some found \<Rightarrow> 1) div 1000 + 86400"
proof (cases "findOne_walletAddress (toLowerCase a) db")
  case None
  show ?thesis
  proof (cases "User_create (clock e 2) (new_wallet_user e a) (other db)")
    case (Inl err)
    with None assms show ?thesis by (simp add: walletAuth_resolve_def)
  next
    case (Inr created)
    obtain u db' where "created = (u, db')"
      by (cases created)
    with None Inr assms walletAuth_respond_200 [of e 3 u db']
    show ?thesis
      by (simp add: walletAuth_resolve_def)
  qed
next
  case (Some found)
  show ?thesis
  proof (cases "save_lastWalletActivity found (clock e 0) (other db)")
    case (Inl err)
    with Some assms show ?thesis by (simp add: walletAuth_resolve_def)
  next
    case (Inr db')
    with Some assms
      walletAuth_respond_200 [of e 1 "found\<lparr>lastWalletActivity := Some (clock e 0)\<rparr>" db']
    show ?thesis
      by (simp add: walletAuth_resolve_def)
  qed
qed

lemma walletAuth_200:
  assumes "status (resp (walletAuth e other req db)) = 200"
  shows "\<exists>t su. body (resp (walletAuth e other req db)) = WalletAuthBody t su
           \<and> iat t = clock e (case findOne_walletAddress (str_of (req_walletAddress req)) db of
                                None \<Rightarrow> 3 | Some found \<Rightarrow> 1) div 1000
           \<and> exp t = clock e (case findOne_walletAddress (str_of (req_walletAddress req)) db of
                                None \<Rightarrow> 3 | Some found \<Rightarrow> 1) div 1000 + 86400"
proof -
  from assms obtain cs where
    "walletAuth e other req db
       = walletAuth_resolve e other (str_of (req_walletAddress req)) db cs"
    by (auto simp: walletAuth_def split: option.splits if_splits)
  with assms walletAuth_resolve_200 [of e other "str_of (req_walletAddress req)" db cs]
  show ?thesis by (simp add: findOne_walletAddress_toLowerCase)
qed

lemma loginUser_200:
  assumes "status (resp (loginUser e req db)) = 200"
  shows "\<exists>t u. body (resp (loginUser e req db)) = LoginBody t u
           \<and> findOne_username (req_username req) db = Some u
           \<and> iat t = clock e 0 div 1000 \<and> exp t = clock e 0 div 1000 + 3600"
proof -
  from assms obtain u where u: "findOne_username (req_username req) db = Some u"
    and c: "bcryptCompare e (req_password req) (passwordHash u)"
    by (auto simp: loginUser_def split: option.splits if_splits)
  with assms obtain t where
    t: "jwt_sign \<lparr>tok_userId = doc_id u, tok_username = username u, tok_email = email u,
                  tok_walletAddress = None\<rparr> (JWT_SECRET e) ''1h'' (clock e 0) = Inr t"
    by (auto simp: loginUser_def split: sum.splits)
  from jwt_sign_Inr [OF t timespan_1h] u c t show ?thesis
    by (simp add: loginUser_def)
qed

text \<open>
  C7. Every successful \<open>walletAuth\<close> response carries a token issued at the clock's reading
  when it was signed (the fourth reading of the request when a document was created,
  after \<open>walletConnectedAt\<close>, \<open>lastWalletActivity\<close> and \<open>createdAt\<close>; the second when one was
  found) and expiring 24 hours (86400 seconds) after that reading. Every successful
  \<open>loginUser\<close> response carries a token issued at the request's clock reading and expiring
  1 hour (3600 seconds) after it. So a wallet session always lasts strictly longer than a
  traditional one.
\<close>

theorem session_lifetimes:
  "(status (resp (walletAuth e other wreq db)) = 200 \<longrightarrow>
      (\<exists>t su. body (resp (walletAuth e other wreq db)) = WalletAuthBody t su
         \<and> iat t = clock e (case findOne_walletAddress (str_of (req_walletAddress wreq)) db of
                              None \<Rightarrow> 3 | Some found \<Rightarrow> 1) div 1000
         \<and> exp t = iat t + 24 * 3600))
   \<and> (status (resp (loginUser e' lreq db')) = 200 \<longrightarrow>
      (\<exists>t u. body (resp (loginUser e' lreq db')) = LoginBody t u
         \<and> iat t = clock e' 0 div 1000
         \<and> exp t = iat t + 1 * 3600))
   \<and> (\<forall>tw su tl u.
         body (resp (walletAuth e other wreq db)) = WalletAuthBody tw su
         \<and> body (resp (loginUser e' lreq db')) = LoginBody tl u
         \<longrightarrow> exp tl - iat tl < exp tw - iat tw)"
proof (intro conjI impI allI)
  assume "status (resp (walletAuth e other wreq db)) = 200"
  from walletAuth_200 [OF this]
  show "\<exists>t su. body (resp (walletAuth e other wreq db)) = WalletAuthBody t su
          \<and> iat t = clock e (case findOne_walletAddress (str_of (req_walletAddress wreq)) db of
                               None \<Rightarrow> 3 | Some found \<Rightarrow> 1) div 1000
          \<and> exp t = iat t + 24 * 3600"
    by auto
next
  assume "status (resp (loginUser e' lreq db')) = 200"
  from loginUser_200 [OF this]
  show "\<exists>t u. body (resp (loginUser e' lreq db')) = LoginBody t u
          \<and> iat t = clock e' 0 div 1000 \<and> exp t = iat t + 1 * 3600"
    by auto
next
  fix tw su tl u
  assume b: "body (resp (walletAuth e other wreq db)) = WalletAuthBody tw su
           \<and> body (resp (loginUser e' lreq db')) = LoginBody tl u"
  have w: "status (resp (walletAuth e other wreq db)) = 200"
    using b
    by (auto simp: walletAuth_def walletAuth_resolve_def walletAuth_respond_def
        split: option.splits if_splits sum.splits)
  have l: "status (resp (loginUser e' lreq db')) = 200"
    using b by (auto simp: loginUser_def split: option.splits if_splits sum.splits)
  from walletAuth_200 [OF w] loginUser_200 [OF l] b
  show "exp tl - iat tl < exp tw - iat tw"
    by auto
qed

theorem session_lifetimes_witness:
  "status (resp (walletAuth sample_env id (sample_request addr_mixed ''0xsigned-by-mixed'')
                   empty_store)) = 200
   \<and> (\<exists>t su. body (resp (walletAuth sample_env id
                             (sample_request addr_mixed ''0xsigned-by-mixed'') empty_store))
                = WalletAuthBody t su \<and> iat t = 1700000000 \<and> exp t = 1700086400)
   \<and> status (resp (loginUser sample_env sample_login one_wallet_store)) = 200
   \<and> (\<exists>t u. body (resp (loginUser sample_env sample_login one_wallet_store)) = LoginBody t u
                \<and> iat t = 1700000000 \<and> exp t = 1700003600)
   \<and> status (resp (loginUser sample_env (sample_login\<lparr>req_username := CHR 0xC2 # CHR 0xA0 # '' wallet_abcdef01 ''\<rparr>)
                     one_wallet_store)) = 200"
proof -
  have w: "status (resp (walletAuth sample_env id
                           (sample_request addr_mixed ''0xsigned-by-mixed'') empty_store)) = 200"
    by code_simp
  have l: "status (resp (loginUser sample_env sample_login one_wallet_store)) = 200"
    by code_simp
  have p: "status (resp (loginUser sample_env (sample_login\<lparr>req_username := CHR 0xC2 # CHR 0xA0 # '' wallet_abcdef01 ''\<rparr>)
                     one_wallet_store)) = 200"
    by code_simp
  have n: "findOne_walletAddress
             (str_of (req_walletAddress (sample_request addr_mixed ''0xsigned-by-mixed'')))
             empty_store = None"
    by (simp add: findOne_walletAddress_def empty_store_def)
  have c: "clock sample_env 3 div 1000 = 1700000000" "clock sample_env 0 div 1000 = 1700000000"
    by (simp_all add: sample_env_def)
  note inst = session_lifetimes [of sample_env id
      "sample_request addr_mixed ''0xsigned-by-mixed''" empty_store sample_env sample_login
      one_wallet_store]
  from inst [THEN conjunct1, rule_format, OF w] obtain tw sw where
    "body (resp (walletAuth sample_env id
                   (sample_request addr_mixed ''0xsigned-by-mixed'') empty_store))
       = WalletAuthBody tw sw"
    and "iat tw = clock sample_env
                    (case findOne_walletAddress
                            (str_of (req_walletAddress
                                       (sample_request addr_mixed ''0xsigned-by-mixed'')))
                            empty_store of
                       None \<Rightarrow> 3 | Some found \<Rightarrow> 1) div 1000"
    and "exp tw = iat tw + 24 * 3600"
    by blast
  then have tw: "body (resp (walletAuth sample_env id
                   (sample_request addr_mixed ''0xsigned-by-mixed'') empty_store))
       = WalletAuthBody tw sw" "iat tw = 1700000000" "exp tw = 1700086400"
    by (simp_all add: n c)
  from inst [THEN conjunct2, THEN conjunct1, rule_format, OF l] obtain tl ul where
    "body (resp (loginUser sample_env sample_login one_wallet_store)) = LoginBody tl ul"
    and "iat tl = clock sample_env 0 div 1000" and "exp tl = iat tl + 1 * 3600"
    by blast
  then have tl: "body (resp (loginUser sample_env sample_login one_wallet_store))
       = LoginBody tl ul" "iat tl = 1700000000" "exp tl = 1700003600"
    by (simp_all add: c)
  from tw have "\<exists>t su. body (resp (walletAuth sample_env id
                             (sample_request addr_mixed ''0xsigned-by-mixed'') empty_store))
                = WalletAuthBody t su \<and> iat t = 1700000000 \<and> exp t = 1700086400"
    by blast
  moreover from tl have "\<exists>t u. body (resp (loginUser sample_env sample_login one_wallet_store))
                = LoginBody t u \<and> iat t = 1700000000 \<and> exp t = 1700003600"
    by blast
  ultimately show ?thesis
    using w l p by simp
qed

subsection \<open>Requests that are turned away\<close>

text \<open>
  C10. When the address, the message or the signature of a request is absent or the empty
  string, \<open>walletAuth\<close> answers 400 with the "required" error, whatever the verifier would
  say of the signature: nothing is verified, looked up or written. An empty challenge
  message is answered exactly as a missing one.
\<close>

theorem walletAuth_falsy_field:
  assumes "falsy (req_walletAddress req) \<or> falsy (req_message req) \<or> falsy (req_signature req)"
  shows "walletAuth e other req db =
           \<lparr>resp = \<lparr>status = 400,
                    body = ErrorBody ''Wallet address, message, and signature are required''\<rparr>,
            db_after = db, calls = []\<rparr>"
  using assms by (simp add: walletAuth_def reject_def)

theorem walletAuth_falsy_field_witness:
  "falsy (req_message ((sample_request addr_mixed ''0xsigned-by-mixed'')\<lparr>req_message := Some []\<rparr>))
   \<and> walletAuth (sample_env\<lparr>verifyMessage := (\<lambda>m s. Some addr_mixed)\<rparr>) id
        ((sample_request addr_mixed ''0xsigned-by-mixed'')\<lparr>req_message := Some []\<rparr>)
        empty_store
      = \<lparr>resp = \<lparr>status = 400,
                  body = ErrorBody ''Wallet address, message, and signature are required''\<rparr>,
          db_after = empty_store, calls = []\<rparr>
   \<and> walletAuth (sample_env\<lparr>verifyMessage := (\<lambda>m s. Some addr_mixed)\<rparr>) id
        ((sample_request addr_mixed ''0xsigned-by-mixed'')\<lparr>req_message := Some []\<rparr>)
        empty_store
      = walletAuth (sample_env\<lparr>verifyMessage := (\<lambda>m s. Some addr_mixed)\<rparr>) id
          ((sample_request addr_mixed ''0xsigned-by-mixed'')\<lparr>req_message := None\<rparr>)
          empty_store"
proof -
  have e: "falsy (req_message
             ((sample_request addr_mixed ''0xsigned-by-mixed'')\<lparr>req_message := Some []\<rparr>))"
    by (simp add: falsy_def)
  have a: "falsy (req_message
             ((sample_request addr_mixed ''0xsigned-by-mixed'')\<lparr>req_message := None\<rparr>))"
    by (simp add: falsy_def)
  show ?thesis
    using e
      walletAuth_falsy_field [of "(sample_request addr_mixed ''0xsigned-by-mixed'')\<lparr>req_message := Some []\<rparr>"]
      walletAuth_falsy_field [of "(sample_request addr_mixed ''0xsigned-by-mixed'')\<lparr>req_message := None\<rparr>"]
    by (simp add: falsy_def)
qed

text \<open>
  C5. When the address of a request is not \<open>0x\<close> followed by 40 hexadecimal digits,
  \<open>walletAuth\<close> answers 400 without a single call: the verifier is not invoked and the
  store is left as it was.
\<close>

theorem walletAuth_malformed_address:
  assumes "\<And>a. req_walletAddress req = Some a \<Longrightarrow> \<not> address_format a"
  shows "status (resp (walletAuth e other req db)) = 400
       \<and> db_after (walletAuth e other req db) = db
       \<and> calls (walletAuth e other req db) = []"
proof (cases "req_walletAddress req")
  case None
  then show ?thesis by (simp add: walletAuth_def falsy_def)
next
  case (Some a)
  with assms have "\<not> address_format (str_of (req_walletAddress req))"
    by (simp add: str_of_def)
  then show ?thesis by (simp add: walletAuth_def)
qed

theorem walletAuth_malformed_address_witness:
  "\<not> address_format ''0xabcdef0123456789abcdef0123456789abcdef0''
   \<and> \<not> address_format ''abcdef0123456789abcdef0123456789abcdef0112''
   \<and> \<not> address_format ''0xabcdef0123456789abcdef0123456789abcdefg1''
   \<and> status (resp (walletAuth sample_env id
                     (sample_request ''0xabcdef0123456789abcdef0123456789abcdefg1''
                        ''0xsigned-by-mixed'') empty_store)) = 400
   \<and> db_after (walletAuth sample_env id
                 (sample_request ''0xabcdef0123456789abcdef0123456789abcdefg1''
                    ''0xsigned-by-mixed'') empty_store) = empty_store
   \<and> calls (walletAuth sample_env id
              (sample_request ''0xabcdef0123456789abcdef0123456789abcdefg1''
                 ''0xsigned-by-mixed'') empty_store) = []"
proof -
  have short: "\<not> address_format ''0xabcdef0123456789abcdef0123456789abcdef0''"
    and bare: "\<not> address_format ''abcdef0123456789abcdef0123456789abcdef0112''"
    and nonhex: "\<not> address_format ''0xabcdef0123456789abcdef0123456789abcdefg1''"
    by (simp_all add: address_format_def isHexDigit_def)
  have "\<And>a. req_walletAddress (sample_request ''0xabcdef0123456789abcdef0123456789abcdefg1''
                 ''0xsigned-by-mixed'') = Some a \<Longrightarrow> \<not> address_format a"
    using nonhex by (simp add: sample_request_def)
  from walletAuth_malformed_address
         [where req = "sample_request ''0xabcdef0123456789abcdef0123456789abcdefg1''
                         ''0xsigned-by-mixed''"
            and e = sample_env and other = id and db = empty_store, OF this]
       short bare nonhex
  show ?thesis by simp
qed

text \<open>
  C6. When the verifier recovers an address that differs, letter case aside, from the
  claimed one, \<open>walletAuth\<close> answers 400 with an error message and leaves the store as it
  was: the only call it can have made is the one to the verifier.
\<close>

theorem walletAuth_signature_mismatch:
  assumes "req_walletAddress req = Some a" and "req_message req = Some m"
    and "req_signature req = Some s"
    and "verifyMessage e m s = Some r" and "toLowerCase r \<noteq> toLowerCase a"
  shows "status (resp (walletAuth e other req db)) = 400
       \<and> (\<exists>msg. body (resp (walletAuth e other req db)) = ErrorBody msg)
       \<and> db_after (walletAuth e other req db) = db
       \<and> set (calls (walletAuth e other req db)) \<subseteq> {Call_verifyMessage m s}"
  using assms by (simp add: walletAuth_def str_of_def)

theorem walletAuth_signature_mismatch_witness:
  "verifyMessage sample_env ''Sign in to NexaCred'' ''0xsigned-by-twin'' = Some addr_twin
   \<and> toLowerCase addr_twin \<noteq> toLowerCase addr_mixed
   \<and> resp (walletAuth sample_env id (sample_request addr_mixed ''0xsigned-by-twin'')
             one_wallet_store)
      = \<lparr>status = 400, body = ErrorBody ''Invalid signature''\<rparr>
   \<and> db_after (walletAuth sample_env id (sample_request addr_mixed ''0xsigned-by-twin'')
                 one_wallet_store) = one_wallet_store"
proof -
  have v: "verifyMessage sample_env ''Sign in to NexaCred'' ''0xsigned-by-twin'' = Some addr_twin"
    by (simp add: sample_env_def)
  have d: "toLowerCase addr_twin \<noteq> toLowerCase addr_mixed"
    by (simp add: addr_twin_def addr_mixed_def toLowerCase_def toLowerChar_def)
  have r: "resp (walletAuth sample_env id (sample_request addr_mixed ''0xsigned-by-twin'')
                   one_wallet_store)
           = \<lparr>status = 400, body = ErrorBody ''Invalid signature''\<rparr>"
    by code_simp
  from walletAuth_signature_mismatch [OF _ _ _ v d,
      of "sample_request addr_mixed ''0xsigned-by-twin''" id one_wallet_store] v d r
  show ?thesis by (simp add: sample_request_def)
qed

subsection \<open>Resolving the identity\<close>

lemma walletAuth_respond_200_outcome:
  assumes "status (resp (walletAuth_respond e k u db cs)) = 200"
  shows "\<exists>t. walletAuth_respond e k u db cs =
               \<lparr>resp = \<lparr>status = 200, body = WalletAuthBody t (shown_fields u)\<rparr>,
                db_after = db, calls = cs @ [Call_sign]\<rparr>"
proof (cases "jwt_sign \<lparr>tok_userId = doc_id u, tok_username = username u, tok_email = email u,
                        tok_walletAddress = walletAddress u\<rparr>
                (JWT_SECRET e) ''24h'' (clock e k)")
  case (Inl err)
  with assms show ?thesis by (simp add: walletAuth_respond_def)
next
  case (Inr t)
  then show ?thesis by (simp add: walletAuth_respond_def shown_fields_def)
qed

lemma walletAuth_resolve_first_time:
  assumes none: "findOne_walletAddress (toLowerCase a) db = None"
    and ok: "status (resp (walletAuth_resolve e other a db cs)) = 200"
    and fmt: "address_format a"
  shows "\<exists>t. walletAuth_resolve e other a db cs =
           \<lparr>resp = \<lparr>status = 200,
                    body = WalletAuthBody t
                      (shown_fields (user_fields.extend (new_wallet_user e a)
                         \<lparr>doc_id = nextId (other db), createdAt = clock e 2\<rparr>))\<rparr>,
            db_after = (other db)
              \<lparr>users := users (other db) @
                 [user_fields.extend (new_wallet_user e a)
                    \<lparr>doc_id = nextId (other db), createdAt = clock e 2\<rparr>],
               nextId := Suc (nextId (other db))\<rparr>,
            calls = cs @ [Call_findOne (toLowerCase a), Call_create, Call_sign]\<rparr>"
    and "duplicate_key (new_wallet_user e a) (users (other db)) = None"
    and "schema_valid (new_wallet_user e a)"
proof -
  obtain u db' where c: "User_create (clock e 2) (new_wallet_user e a) (other db) = Inr (u, db')"
    using none ok by (cases "User_create (clock e 2) (new_wallet_user e a) (other db)")
      (auto simp: walletAuth_resolve_def)
  note facts = User_create_Inr [OF c, unfolded apply_setters_new_wallet_user [OF fmt]]
  from facts show "duplicate_key (new_wallet_user e a) (users (other db)) = None"
    and "schema_valid (new_wallet_user e a)"
    by simp_all
  from none c ok
  have "status (resp (walletAuth_respond e 3 u db'
          (cs @ [Call_findOne (toLowerCase a), Call_create]))) = 200"
    by (simp add: walletAuth_resolve_def)
  from walletAuth_respond_200_outcome [OF this] none c facts(1,2)
  show "\<exists>t. walletAuth_resolve e other a db cs =
           \<lparr>resp = \<lparr>status = 200,
                    body = WalletAuthBody t
                      (shown_fields (user_fields.extend (new_wallet_user e a)
                         \<lparr>doc_id = nextId (other db), createdAt = clock e 2\<rparr>))\<rparr>,
            db_after = (other db)
              \<lparr>users := users (other db) @
                 [user_fields.extend (new_wallet_user e a)
                    \<lparr>doc_id = nextId (other db), createdAt = clock e 2\<rparr>],
               nextId := Suc (nextId (other db))\<rparr>,
            calls = cs @ [Call_findOne (toLowerCase a), Call_create, Call_sign]\<rparr>"
    by (auto simp: walletAuth_resolve_def)
qed

lemma walletAuth_resolve_found:
  assumes found: "findOne_walletAddress (toLowerCase a) db = Some u"
    and ok: "status (resp (walletAuth_resolve e other a db cs)) = 200"
  shows "\<exists>t us. set_lastWalletActivity (doc_id u) (clock e 0) (users (other db)) = Some us
           \<and> walletAuth_resolve e other a db cs =
               \<lparr>resp = \<lparr>status = 200, body = WalletAuthBody t (shown_fields u)\<rparr>,
                db_after = (other db)\<lparr>users := us\<rparr>,
                calls = cs @ [Call_findOne (toLowerCase a), Call_save, Call_sign]\<rparr>"
    and "schema_valid (user_fields.truncate u)"
proof -
  show v: "schema_valid (user_fields.truncate u)"
    using found ok
    by (cases "schema_valid (user_fields.truncate u)")
      (simp_all add: walletAuth_resolve_def save_lastWalletActivity_def)
  obtain us where s: "set_lastWalletActivity (doc_id u) (clock e 0) (users (other db)) = Some us"
    using found ok v
    by (cases "set_lastWalletActivity (doc_id u) (clock e 0) (users (other db))")
      (auto simp: walletAuth_resolve_def save_lastWalletActivity_def)
  with found ok v
  have "status (resp (walletAuth_respond e 1 (u\<lparr>lastWalletActivity := Some (clock e 0)\<rparr>)
          ((other db)\<lparr>users := us\<rparr>) (cs @ [Call_findOne (toLowerCase a), Call_save]))) = 200"
    by (simp add: walletAuth_resolve_def save_lastWalletActivity_def)
  from walletAuth_respond_200_outcome [OF this] found s v
  show "\<exists>t us. set_lastWalletActivity (doc_id u) (clock e 0) (users (other db)) = Some us
           \<and> walletAuth_resolve e other a db cs =
               \<lparr>resp = \<lparr>status = 200, body = WalletAuthBody t (shown_fields u)\<rparr>,
                db_after = (other db)\<lparr>users := us\<rparr>,
                calls = cs @ [Call_findOne (toLowerCase a), Call_save, Call_sign]\<rparr>"
    by (auto simp: walletAuth_resolve_def save_lastWalletActivity_def)
qed

lemma walletAuth_200_resolve:
  assumes "status (resp (walletAuth e other req db)) = 200"
  shows "\<exists>a cs. req_walletAddress req = Some a \<and> address_format a
           \<and> walletAuth e other req db = walletAuth_resolve e other a db cs
           \<and> Call_create \<notin> set cs \<and> Call_save \<notin> set cs \<and> Call_findOne (toLowerCase a) \<notin> set cs"
  using assms
  by (cases "req_walletAddress req")
    (auto simp: walletAuth_def falsy_def str_of_def split: if_splits option.splits)

lemma walletAuth_leaves_record:
  assumes wf: "wf_store db" and a: "req_walletAddress req = Some a"
    and ok: "status (resp (walletAuth e id req db)) = 200"
  shows "\<exists>u t i. i < length (users (db_after (walletAuth e id req db)))
           \<and> users (db_after (walletAuth e id req db)) ! i = u
           \<and> (\<forall>j < i. walletAddress (users (db_after (walletAuth e id req db)) ! j)
                         \<noteq> Some (toLowerCase a))
           \<and> walletAddress u = Some (toLowerCase a)
           \<and> body (resp (walletAuth e id req db)) = WalletAuthBody t (shown_fields u)
           \<and> (lastWalletActivity u = Some (clock e 0) \<or> lastWalletActivity u = Some (clock e 1))
           \<and> wf_store (db_after (walletAuth e id req db))"
proof -
  from walletAuth_200_resolve [OF ok] a obtain cs where fmt: "address_format a"
    and r: "walletAuth e id req db = walletAuth_resolve e id a db cs"
    by auto
  from ok r have ok': "status (resp (walletAuth_resolve e id a db cs)) = 200"
    by simp
  show ?thesis
  proof (cases "findOne_walletAddress (toLowerCase a) db")
    case None
    define u where "u = user_fields.extend (new_wallet_user e a)
                          \<lparr>doc_id = nextId db, createdAt = clock e 2\<rparr>"
    from walletAuth_resolve_first_time(1) [OF None ok' fmt] obtain t where
      o: "walletAuth_resolve e id a db cs =
           \<lparr>resp = \<lparr>status = 200, body = WalletAuthBody t (shown_fields u)\<rparr>,
            db_after = db\<lparr>users := users db @ [u], nextId := Suc (nextId db)\<rparr>,
            calls = cs @ [Call_findOne (toLowerCase a), Call_create, Call_sign]\<rparr>"
      by (auto simp: u_def)
    have w: "walletAddress u = Some (toLowerCase a)" and l: "lastWalletActivity u = Some (clock e 1)"
      and d: "doc_id u = nextId db"
      by (simp_all add: u_def new_wallet_user_sel)
    from None have "\<forall>j < length (users db). walletAddress (users db ! j) \<noteq> Some (toLowerCase a)"
      by (auto simp: findOne_walletAddress_def find_None_iff)
    then have "\<forall>j < length (users db). walletAddress ((users db @ [u]) ! j) \<noteq> Some (toLowerCase a)"
      by (simp add: nth_append)
    with w l wf_store_append [OF wf d] show ?thesis
      unfolding r o
      by (intro exI [of _ u] exI [of _ t] exI [of _ "length (users db)"]) simp
  next
    case (Some u0)
    from find_index [OF Some [unfolded findOne_walletAddress_def]] obtain i where
      i: "i < length (users db)" "users db ! i = u0" "walletAddress u0 = Some (toLowerCase a)"
        "\<forall>j < i. walletAddress (users db ! j) \<noteq> Some (toLowerCase a)"
      by auto
    from wf have dist: "distinct (map doc_id (users db))"
      by (simp add: wf_store_def)
    from walletAuth_resolve_found(1) [OF Some ok']
      set_lastWalletActivity_distinct [OF dist i(1), of "clock e 0"] i(2)
    obtain t where
      o: "walletAuth_resolve e id a db cs =
           \<lparr>resp = \<lparr>status = 200, body = WalletAuthBody t (shown_fields u0)\<rparr>,
            db_after = db\<lparr>users := (users db)[i := u0\<lparr>lastWalletActivity := Some (clock e 0)\<rparr>]\<rparr>,
            calls = cs @ [Call_findOne (toLowerCase a), Call_save, Call_sign]\<rparr>"
      by auto
    from wf_store_update [OF wf i(1), of "Some (clock e 0)"] i
    show ?thesis
      unfolding r o
      by (intro exI [of _ "u0\<lparr>lastWalletActivity := Some (clock e 0)\<rparr>"] exI [of _ t] exI [of _ i])
        (simp add: nth_list_update)
  qed
qed

text \<open>
  C3. Two successful \<open>walletAuth\<close> requests for the same address, the second one run on
  the store the first one left and later by the clock: both responses show the same user
  (the same \<open>_id\<close>, the same \<open>walletConnectedAt\<close>); the second makes no \<open>User.create\<close>,
  and the store it leaves is the one it found but for the \<open>lastWalletActivity\<close> of that
  one document, which is now the later time of the second request.
\<close>

theorem walletAuth_twice:
  assumes wf: "wf_store db"
    and a1: "req_walletAddress req1 = Some a" and a2: "req_walletAddress req2 = Some a"
    and db1: "db1 = db_after (walletAuth e1 id req1 db)"
    and ok1: "status (resp (walletAuth e1 id req1 db)) = 200"
    and ok2: "status (resp (walletAuth e2 id req2 db1)) = 200"
    and later: "clock e1 0 < clock e2 0" "clock e1 1 < clock e2 0"
  shows "\<exists>t1 t2 su i told.
           body (resp (walletAuth e1 id req1 db)) = WalletAuthBody t1 su
         \<and> body (resp (walletAuth e2 id req2 db1)) = WalletAuthBody t2 su
         \<and> i < length (users db1) \<and> doc_id (users db1 ! i) = res_id su
         \<and> db_after (walletAuth e2 id req2 db1)
             = db1\<lparr>users := (users db1)[i := (users db1 ! i)\<lparr>lastWalletActivity := Some (clock e2 0)\<rparr>]\<rparr>
         \<and> lastWalletActivity (users db1 ! i) = Some told \<and> told < clock e2 0
         \<and> Call_create \<notin> set (calls (walletAuth e2 id req2 db1))"
proof -
  from walletAuth_leaves_record [OF wf a1 ok1] db1 obtain u t1 i where
    i: "i < length (users db1)" "users db1 ! i = u"
      "\<forall>j < i. walletAddress (users db1 ! j) \<noteq> Some (toLowerCase a)"
      "walletAddress u = Some (toLowerCase a)"
    and b1: "body (resp (walletAuth e1 id req1 db)) = WalletAuthBody t1 (shown_fields u)"
    and l: "lastWalletActivity u = Some (clock e1 0) \<or> lastWalletActivity u = Some (clock e1 1)"
    and wf1: "wf_store db1"
    by auto
  from i have f: "findOne_walletAddress (toLowerCase a) db1 = Some u"
    by (auto simp: findOne_walletAddress_def find_Some_iff intro!: exI [of _ i])
  from walletAuth_200_resolve [OF ok2] a2 obtain cs where
    r: "walletAuth e2 id req2 db1 = walletAuth_resolve e2 id a db1 cs"
    and cs: "Call_create \<notin> set cs"
    by auto
  from ok2 r have ok': "status (resp (walletAuth_resolve e2 id a db1 cs)) = 200"
    by simp
  from wf1 have dist: "distinct (map doc_id (users db1))"
    by (simp add: wf_store_def)
  from walletAuth_resolve_found(1) [OF f ok']
    set_lastWalletActivity_distinct [OF dist i(1), of "clock e2 0"] i(2)
  obtain t2 where
    o: "walletAuth_resolve e2 id a db1 cs =
         \<lparr>resp = \<lparr>status = 200, body = WalletAuthBody t2 (shown_fields u)\<rparr>,
          db_after = db1\<lparr>users := (users db1)[i := u\<lparr>lastWalletActivity := Some (clock e2 0)\<rparr>]\<rparr>,
          calls = cs @ [Call_findOne (toLowerCase a), Call_save, Call_sign]\<rparr>"
    by auto
  from l later obtain told where told: "lastWalletActivity u = Some told" "told < clock e2 0"
    by auto
  from b1 i(1,2) told cs show ?thesis
    unfolding r o
    by (intro exI [of _ t1] exI [of _ t2] exI [of _ "shown_fields u"] exI [of _ i] exI [of _ told])
      (simp add: shown_fields_def)
qed

theorem walletAuth_twice_witness:
  "wf_store empty_store
   \<and> status (resp (walletAuth sample_env id (sample_request addr_mixed ''0xsigned-by-mixed'')
                     empty_store)) = 200
   \<and> status (resp (walletAuth later_env id (sample_request addr_upper ''0xsigned-by-mixed'')
                     one_wallet_store)) = 200
   \<and> clock sample_env 1 < clock later_env 0
   \<and> (\<exists>t1 t2 su i told.
         body (resp (walletAuth sample_env id (sample_request addr_mixed ''0xsigned-by-mixed'')
                       empty_store)) = WalletAuthBody t1 su
       \<and> body (resp (walletAuth later_env id (sample_request addr_mixed ''0xsigned-by-mixed'')
                       one_wallet_store)) = WalletAuthBody t2 su
       \<and> i < length (users one_wallet_store) \<and> doc_id (users one_wallet_store ! i) = res_id su
       \<and> db_after (walletAuth later_env id (sample_request addr_mixed ''0xsigned-by-mixed'')
                     one_wallet_store)
           = one_wallet_store
               \<lparr>users := (users one_wallet_store)
                  [i := (users one_wallet_store ! i)
                          \<lparr>lastWalletActivity := Some (clock later_env 0)\<rparr>]\<rparr>
       \<and> lastWalletActivity (users one_wallet_store ! i) = Some told \<and> told < clock later_env 0
       \<and> Call_create \<notin> set (calls (walletAuth later_env id
                                      (sample_request addr_mixed ''0xsigned-by-mixed'')
                                      one_wallet_store)))"
proof -
  have wf: "wf_store empty_store"
    by (simp add: wf_store_def empty_store_def)
  have a: "req_walletAddress (sample_request addr_mixed ''0xsigned-by-mixed'') = Some addr_mixed"
    by (simp add: sample_request_def)
  have ok1: "status (resp (walletAuth sample_env id
                (sample_request addr_mixed ''0xsigned-by-mixed'') empty_store)) = 200"
    by code_simp
  have ok2: "status (resp (walletAuth later_env id
                (sample_request addr_mixed ''0xsigned-by-mixed'') one_wallet_store)) = 200"
    by code_simp
  have ok3: "status (resp (walletAuth later_env id
                (sample_request addr_upper ''0xsigned-by-mixed'') one_wallet_store)) = 200"
    by code_simp
  have l0: "clock sample_env 0 < clock later_env 0" and l1: "clock sample_env 1 < clock later_env 0"
    by (simp_all add: sample_env_def later_env_def)
  from walletAuth_twice [OF wf a a one_wallet_store_def ok1 ok2 l0 l1] wf ok1 ok3 l1
  show ?thesis by simp
qed




text \<open>
  C2, as the code has it. When another request has created a document for the address
  between this request's lookup and its \<open>User.create\<close>, or the creation is refused for
  any other reason, \<open>walletAuth\<close> answers 500: there is one lookup and no second one, and
  the store is left as the other requests made it.
\<close>

theorem walletAuth_lost_race:
  assumes a: "req_walletAddress req = Some a" "address_format a"
    and m: "req_message req = Some m" "m \<noteq> []"
    and s: "req_signature req = Some s" "s \<noteq> []"
    and v: "verifyMessage e m s = Some r" "toLowerCase r = toLowerCase a"
    and first: "findOne_walletAddress (toLowerCase a) db = None"
    and refused: "list_ex (\<lambda>u. walletAddress u = Some (toLowerCase a)) (users (other db))
                \<or> (\<exists>err. User_create (clock e 2) (new_wallet_user e a) (other db) = Inl err)"
  shows "walletAuth e other req db =
           \<lparr>resp = \<lparr>status = 500,
                    body = ErrorBody ''Server error during wallet authentication''\<rparr>,
            db_after = other db,
            calls = [Call_verifyMessage m s, Call_findOne (toLowerCase a), Call_create]\<rparr>"
proof -
  have "\<exists>err. User_create (clock e 2) (new_wallet_user e a) (other db) = Inl err"
    using refused
  proof
    assume "list_ex (\<lambda>u. walletAddress u = Some (toLowerCase a)) (users (other db))"
    then have "list_ex (\<lambda>u. walletAddress u = walletAddress (apply_setters (new_wallet_user e a)))
                 (users (other db))"
      by (simp add: apply_setters_new_wallet_user [OF a(2)] new_wallet_user_sel)
    from User_create_duplicate_walletAddress [OF this, of "clock e 2"] show ?thesis
      by (simp add: new_wallet_user_sel)
  qed
  then obtain err where "User_create (clock e 2) (new_wallet_user e a) (other db) = Inl err"
    by auto
  moreover from a(2) have "a \<noteq> []"
    by (auto simp: address_format_def)
  ultimately show ?thesis
    using a m s v first
    by (simp add: walletAuth_def falsy_def str_of_def walletAuth_resolve_def reject_def)
qed

theorem walletAuth_lost_race_witness:
  "findOne_walletAddress (toLowerCase addr_mixed) empty_store = None
   \<and> list_ex (\<lambda>u. walletAddress u = Some (toLowerCase addr_mixed))
        (users (racing_twin empty_store))
   \<and> walletAuth sample_env racing_twin (sample_request addr_mixed ''0xsigned-by-mixed'')
        empty_store
       = \<lparr>resp = \<lparr>status = 500,
                    body = ErrorBody ''Server error during wallet authentication''\<rparr>,
          db_after = racing_twin empty_store,
          calls = [Call_verifyMessage ''Sign in to NexaCred'' ''0xsigned-by-mixed'',
                   Call_findOne (toLowerCase addr_mixed), Call_create]\<rparr>"
proof -
  have a: "req_walletAddress (sample_request addr_mixed ''0xsigned-by-mixed'') = Some addr_mixed"
    and m: "req_message (sample_request addr_mixed ''0xsigned-by-mixed'')
              = Some ''Sign in to NexaCred''"
    and s: "req_signature (sample_request addr_mixed ''0xsigned-by-mixed'')
              = Some ''0xsigned-by-mixed''"
    by (simp_all add: sample_request_def)
  have fmt: "address_format addr_mixed"
    by (simp add: address_format_def addr_mixed_def isHexDigit_def)
  have v: "verifyMessage sample_env ''Sign in to NexaCred'' ''0xsigned-by-mixed'' = Some addr_mixed"
    by (simp add: sample_env_def)
  have first: "findOne_walletAddress (toLowerCase addr_mixed) empty_store = None"
    by (simp add: findOne_walletAddress_def empty_store_def)
  have race: "list_ex (\<lambda>u. walletAddress u = Some (toLowerCase addr_mixed))
                (users (racing_twin empty_store))"
    by code_simp
  from walletAuth_lost_race
         [where e = sample_env and other = racing_twin and db = empty_store
            and req = "sample_request addr_mixed ''0xsigned-by-mixed''" and a = addr_mixed
            and m = "''Sign in to NexaCred''" and s = "''0xsigned-by-mixed''" and r = addr_mixed]
       a fmt m s v first race
  show ?thesis by simp
qed

text \<open>
  The request that loses the race is not answered as a success: two identical requests
  for a new address, the second completing while the first is suspended.
\<close>

theorem walletAuth_lost_race_counterexample:
  "findOne_walletAddress (toLowerCase addr_mixed) empty_store = None
   \<and> verifyMessage sample_env ''Sign in to NexaCred'' ''0xsigned-by-mixed'' = Some addr_mixed
   \<and> list_ex (\<lambda>u. walletAddress u = Some (toLowerCase addr_mixed))
        (users (racing_twin empty_store))
   \<and> resp (walletAuth sample_env racing_twin (sample_request addr_mixed ''0xsigned-by-mixed'')
             empty_store)
       = \<lparr>status = 500, body = ErrorBody ''Server error during wallet authentication''\<rparr>"
  by code_simp

subsection \<open>The letter case of the address\<close>








subsection \<open>What a response shows\<close>

lemma redact_shown:
  assumes "redact u = redact u'"
  shows "shown_fields u = shown_fields u'"
proof -
  have "shown_fields (redact u) = shown_fields (redact u')"
    using assms by simp
  then show ?thesis by (simp add: shown_fields_def redact_def)
qed

lemma redact_walletAddress:
  assumes "redact u = redact u'"
  shows "walletAddress u = walletAddress u'"
proof -
  have "walletAddress (redact u) = walletAddress (redact u')"
    using assms by simp
  then show ?thesis by (simp add: redact_def)
qed

lemma redact_keys:
  assumes "map redact us = map redact us'"
  shows "map doc_id us = map doc_id us'" and "map username us = map username us'"
    and "map email us = map email us'" and "map walletAddress us = map walletAddress us'"
proof -
  have "map (doc_id \<circ> redact) us = map (doc_id \<circ> redact) us'"
    and "map (username \<circ> redact) us = map (username \<circ> redact) us'"
    and "map (email \<circ> redact) us = map (email \<circ> redact) us'"
    and "map (walletAddress \<circ> redact) us = map (walletAddress \<circ> redact) us'"
    using assms by (metis map_map)+
  then show "map doc_id us = map doc_id us'" and "map username us = map username us'"
    and "map email us = map email us'" and "map walletAddress us = map walletAddress us'"
    by (simp_all add: comp_def redact_def)
qed

lemma find_redact:
  assumes "map redact us = map redact us'"
  shows "map_option redact (find (\<lambda>u. walletAddress u = x) us)
       = map_option redact (find (\<lambda>u. walletAddress u = x) us')"
  using assms
proof (induction us arbitrary: us')
  case Nil
  then show ?case by simp
next
  case (Cons u us)
  then obtain u' vs where us': "us' = u' # vs" and h: "redact u = redact u'"
    and t: "map redact us = map redact vs"
    by (cases us') auto
  from redact_walletAddress [OF h] Cons.IH [OF t] h show ?case
    by (simp add: us')
qed

lemma set_lastWalletActivity_None:
  "set_lastWalletActivity i t us = None \<longleftrightarrow> i \<notin> set (map doc_id us)"
  by (induction us) auto

lemma list_ex_key: "list_ex (\<lambda>u. f u = x) us \<longleftrightarrow> x \<in> set (map f us)"
  by (induction us) auto

lemma duplicate_key_keys:
  "duplicate_key d us =
     (if username d \<in> set (map username us) then Some ''username''
      else if email d \<in> set (map email us) then Some ''email''
      else if walletAddress d \<noteq> None \<and> walletAddress d \<in> set (map walletAddress us)
      then Some ''walletAddress''
      else None)"
  unfolding duplicate_key_def list_ex_key ..

lemma duplicate_key_redact:
  assumes "map redact us = map redact us'"
  shows "duplicate_key d (us :: user list) = duplicate_key d us'"
  unfolding duplicate_key_keys redact_keys [OF assms] ..

lemma duplicate_key_passwordHash [simp]:
  "duplicate_key (d\<lparr>passwordHash := h\<rparr>) us = duplicate_key d us"
  by (simp add: duplicate_key_def)

lemma schema_valid_passwordHash:
  "schema_valid d \<Longrightarrow> h \<noteq> [] \<Longrightarrow> schema_valid (d\<lparr>passwordHash := h\<rparr>)"
  by (simp add: schema_valid_def)

lemma new_wallet_user_rehash:
  "new_wallet_user (e\<lparr>mathRandom36 := r', genSalt := g', bcryptHash := h'\<rparr>) a
     = (new_wallet_user e a)\<lparr>passwordHash := h' (substring7 r') g'\<rparr>"
  by (simp add: new_wallet_user_def)

lemma resp_respond:
  "resp (walletAuth_respond e k u db cs) =
     (case jwt_sign \<lparr>tok_userId = res_id (shown_fields u), tok_username = res_username (shown_fields u),
                     tok_email = res_email (shown_fields u),
                     tok_walletAddress = res_walletAddress (shown_fields u)\<rparr>
             (JWT_SECRET e) ''24h'' (clock e k) of
        Inl err \<Rightarrow> \<lparr>status = 500, body = ErrorBody ''Server error during wallet authentication''\<rparr>
      | Inr t \<Rightarrow> \<lparr>status = 200, body = WalletAuthBody t (shown_fields u)\<rparr>)"
  by (simp add: walletAuth_respond_def shown_fields_def split: sum.split)

lemma resp_respond_cong:
  assumes "shown_fields u = shown_fields u'" and "JWT_SECRET e = JWT_SECRET e'"
    and "clock e k = clock e' k"
  shows "resp (walletAuth_respond e k u db cs) = resp (walletAuth_respond e' k u' db' cs')"
  unfolding resp_respond assms ..

lemma resp_resolve_found:
  assumes "findOne_walletAddress (toLowerCase a) db = Some u"
    and "status (resp (walletAuth_resolve e other a db cs)) = 200"
  shows "resp (walletAuth_resolve e other a db cs) = resp (walletAuth_respond e 1 u db [])"
  using assms
  by (cases "save_lastWalletActivity u (clock e 0) (other db)")
    (simp_all add: walletAuth_resolve_def resp_respond cong: sum.case_cong)

lemma resp_resolve_first_time:
  assumes "findOne_walletAddress (toLowerCase a) db = None"
    and "status (resp (walletAuth_resolve e other a db cs)) = 200"
    and "address_format a"
  shows "resp (walletAuth_resolve e other a db cs)
       = resp (walletAuth_respond e 3
                 (user_fields.extend (new_wallet_user e a)
                    \<lparr>doc_id = nextId (other db), createdAt = clock e 2\<rparr>) db [])"
proof -
  from walletAuth_resolve_first_time(1) [OF assms] obtain t where
    "resp (walletAuth_resolve e other a db cs) =
       \<lparr>status = 200,
        body = WalletAuthBody t
                 (shown_fields (user_fields.extend (new_wallet_user e a)
                    \<lparr>doc_id = nextId (other db), createdAt = clock e 2\<rparr>))\<rparr>"
    by auto
  with assms(1) show ?thesis
    by (cases "User_create (clock e 2) (new_wallet_user e a) (other db)")
      (auto simp: walletAuth_resolve_def resp_respond dest!: User_create_Inr(1)
        simp: apply_setters_new_wallet_user [OF assms(3)])
qed

lemma resp_resolve_saved:
  assumes "findOne_walletAddress (toLowerCase a) db = Some u"
    and "doc_id u \<in> set (map doc_id (users (other db)))"
    and "schema_valid (user_fields.truncate u)"
  shows "resp (walletAuth_resolve e other a db cs) = resp (walletAuth_respond e 1 u db [])"
proof -
  from assms(2) obtain us where
    "set_lastWalletActivity (doc_id u) (clock e 0) (users (other db)) = Some us"
    using set_lastWalletActivity_None [of "doc_id u" "clock e 0" "users (other db)"]
    by (cases "set_lastWalletActivity (doc_id u) (clock e 0) (users (other db))") auto
  with assms(1,3) show ?thesis
    by (simp add: walletAuth_resolve_def save_lastWalletActivity_def resp_respond
        cong: sum.case_cong)
qed

lemma resp_resolve_created:
  assumes "findOne_walletAddress (toLowerCase a) db = None"
    and "address_format a"
    and "schema_valid (new_wallet_user e a)"
    and "duplicate_key (new_wallet_user e a) (users (other db)) = None"
  shows "resp (walletAuth_resolve e other a db cs)
       = resp (walletAuth_respond e 3
                 (user_fields.extend (new_wallet_user e a)
                    \<lparr>doc_id = nextId (other db), createdAt = clock e 2\<rparr>) db [])"
  using assms
  by (simp add: walletAuth_resolve_def User_create_def Let_def apply_setters_new_wallet_user
      resp_respond cong: sum.case_cong)

lemma schema_valid_redact:
  assumes "redact u = redact u'" and "schema_valid (user_fields.truncate u)"
    and "passwordHash u' \<noteq> []"
  shows "schema_valid (user_fields.truncate u')"
proof -
  from assms(1) have "(redact u)\<lparr>passwordHash := passwordHash u'\<rparr>
                    = (redact u')\<lparr>passwordHash := passwordHash u'\<rparr>"
    by simp
  then have "u' = u\<lparr>passwordHash := passwordHash u'\<rparr>"
    by (simp add: redact_def)
  then have "user_fields.truncate u'
           = (user_fields.truncate u)\<lparr>passwordHash := passwordHash u'\<rparr>"
    using truncate_passwordHash [of "passwordHash u'" u] by simp
  with assms(2,3) show ?thesis
    by (simp add: schema_valid_def)
qed

lemma walletAuth_passes_checks:
  assumes "status (resp (walletAuth e other req db)) = 200"
    and "verifyMessage e' = verifyMessage e"
  shows "\<exists>a cs. req_walletAddress req = Some a \<and> address_format a
           \<and> walletAuth e other req db = walletAuth_resolve e other a db cs
           \<and> walletAuth e' other' req db' = walletAuth_resolve e' other' a db' cs"
  using assms
  by (cases "req_walletAddress req")
    (auto simp: walletAuth_def falsy_def str_of_def split: if_splits option.splits)

text \<open>
  C8. The user object of a \<open>walletAuth\<close> response has seven fields, and the credential
  hash is not one of them. When a run of a request succeeds, a run of the same request on
  a store that differs only in the credential hashes of its documents (each of them a
  hash, not the empty string, which the schema refuses), with another random password,
  salt and hash function (whose hash is not empty either), gives the same response, token
  and user object included.
\<close>

theorem walletAuth_hides_passwordHash:
  assumes dbs: "map redact (users db) = map redact (users db')" "nextId db = nextId db'"
    and hashed: "list_all (\<lambda>u. passwordHash u \<noteq> []) (users db')"
    and e': "e' = e\<lparr>mathRandom36 := r', genSalt := g', bcryptHash := h'\<rparr>"
    and fresh: "h' (substring7 r') g' \<noteq> []"
    and ok: "status (resp (walletAuth e id req db)) = 200"
  shows "resp (walletAuth e' id req db') = resp (walletAuth e id req db)"
proof -
  have v: "verifyMessage e' = verifyMessage e"
    by (simp add: e')
  from walletAuth_passes_checks [OF ok v, of id db'] obtain a cs where
    a: "req_walletAddress req = Some a" and fmt: "address_format a"
    and r: "walletAuth e id req db = walletAuth_resolve e id a db cs"
    and r': "walletAuth e' id req db' = walletAuth_resolve e' id a db' cs"
    by auto
  from ok r have s: "status (resp (walletAuth_resolve e id a db cs)) = 200"
    by simp
  note f = find_redact [OF dbs(1), of "Some (toLowerCase (toLowerCase a))",
      folded findOne_walletAddress_def]
  show ?thesis
  proof (cases "findOne_walletAddress (toLowerCase a) db")
    case None
    with f have None': "findOne_walletAddress (toLowerCase a) db' = None"
      by simp
    from walletAuth_resolve_first_time(2,3) [OF None s fmt]
    have valid: "schema_valid (new_wallet_user e a)"
      and free: "duplicate_key (new_wallet_user e a) (users db) = None"
      by simp_all
    from schema_valid_passwordHash [OF valid fresh]
    have valid': "schema_valid (new_wallet_user e' a)"
      by (simp add: e' new_wallet_user_rehash)
    from free have free': "duplicate_key (new_wallet_user e' a) (users (id db')) = None"
      by (simp add: e' new_wallet_user_rehash duplicate_key_redact [OF dbs(1)])
    have "shown_fields (user_fields.extend (new_wallet_user e' a)
             \<lparr>doc_id = nextId (id db'), createdAt = clock e' 2\<rparr>)
        = shown_fields (user_fields.extend (new_wallet_user e a)
             \<lparr>doc_id = nextId (id db), createdAt = clock e 2\<rparr>)"
      using dbs(2) by (simp add: shown_fields_def e' new_wallet_user_def)
    then show ?thesis
      unfolding r r' resp_resolve_first_time [OF None s fmt]
        resp_resolve_created [where other = id, OF None' fmt valid' free']
      by (rule resp_respond_cong) (simp_all add: e')
  next
    case (Some u)
    with f obtain u' where Some': "findOne_walletAddress (toLowerCase a) db' = Some u'"
      and h: "redact u = redact u'"
      by (cases "findOne_walletAddress (toLowerCase a) db'") auto
    from Some' have mem: "u' \<in> set (users db')"
      by (auto simp: findOne_walletAddress_def find_Some_iff)
    then have in': "doc_id u' \<in> set (map doc_id (users (id db')))"
      by simp
    from mem hashed have "passwordHash u' \<noteq> []"
      by (simp add: list_all_iff)
    from schema_valid_redact [OF h walletAuth_resolve_found(2) [OF Some s] this]
    have valid': "schema_valid (user_fields.truncate u')" .
    from redact_shown [OF h] show ?thesis
      unfolding r r' resp_resolve_found [OF Some s]
        resp_resolve_saved [where other = id, OF Some' in' valid']
      by (intro resp_respond_cong) (simp_all add: e')
  qed
qed

theorem walletAuth_hides_passwordHash_witness:
  "map passwordHash (users rehashed_store) \<noteq> map passwordHash (users one_wallet_store)
   \<and> list_all (\<lambda>u. passwordHash u \<noteq> []) (users rehashed_store)
   \<and> status (resp (walletAuth later_env id (sample_request addr_mixed ''0xsigned-by-mixed'')
                     one_wallet_store)) = 200
   \<and> resp (walletAuth rehashing_env id (sample_request addr_mixed ''0xsigned-by-mixed'')
             rehashed_store)
     = resp (walletAuth later_env id (sample_request addr_mixed ''0xsigned-by-mixed'')
               one_wallet_store)
   \<and> status (resp (walletAuth later_env id (sample_request addr_mixed ''0xsigned-by-mixed'')
                     empty_store)) = 200
   \<and> resp (walletAuth rehashing_env id (sample_request addr_mixed ''0xsigned-by-mixed'')
             empty_store)
     = resp (walletAuth later_env id (sample_request addr_mixed ''0xsigned-by-mixed'')
               empty_store)"
proof -
  have d: "map passwordHash (users rehashed_store) \<noteq> map passwordHash (users one_wallet_store)"
    by code_simp
  have r: "map redact (users one_wallet_store) = map redact (users rehashed_store)"
    by (simp add: rehashed_store_def comp_def)
  have n: "nextId one_wallet_store = nextId rehashed_store"
    by (simp add: rehashed_store_def)
  have h: "list_all (\<lambda>u. passwordHash u \<noteq> []) (users rehashed_store)"
    by (simp add: rehashed_store_def list_all_iff)
  have h0: "list_all (\<lambda>u. passwordHash u \<noteq> []) (users empty_store)"
    by (simp add: empty_store_def)
  have found: "status (resp (walletAuth later_env id
                  (sample_request addr_mixed ''0xsigned-by-mixed'') one_wallet_store)) = 200"
    by code_simp
  have created: "status (resp (walletAuth later_env id
                    (sample_request addr_mixed ''0xsigned-by-mixed'') empty_store)) = 200"
    by code_simp
  have fresh: "''hash of '' @ substring7 ''0.9x8c7v6b5n4'' @ ''$2a$10$another-salt'' \<noteq> []"
    by simp
  from walletAuth_hides_passwordHash [OF r n h rehashing_env_def fresh found]
    walletAuth_hides_passwordHash [OF refl refl h0 rehashing_env_def fresh created]
    d h found created
  show ?thesis by simp
qed

subsection \<open>A signature that cannot be recovered\<close>

text \<open>
  C1. What the code does when \<open>ethers.verifyMessage\<close> throws: it logs a warning and goes
  on. With a string that is no signature at all, a request for the address of an existing
  account is answered 200 with a token for that account, and a request for a new address
  creates an account for it.
\<close>

theorem walletAuth_recovery_error_accepted:
  "verifyMessage later_env ''Sign in to NexaCred'' ''not-a-signature'' = None
   \<and> status (resp (walletAuth later_env id (sample_request addr_mixed ''not-a-signature'')
                     one_wallet_store)) = 200
   \<and> calls (walletAuth later_env id (sample_request addr_mixed ''not-a-signature'')
              one_wallet_store)
       = [Call_verifyMessage ''Sign in to NexaCred'' ''not-a-signature'', Call_warn,
          Call_findOne (toLowerCase addr_mixed), Call_save, Call_sign]
   \<and> status (resp (walletAuth sample_env id (sample_request addr_twin ''not-a-signature'')
                     empty_store)) = 200
   \<and> map walletAddress (users (db_after (walletAuth sample_env id
                                            (sample_request addr_twin ''not-a-signature'')
                                            empty_store)))
       = [Some addr_twin]"
  by code_simp

end
